theory Spec2Isabelle
  imports Complex_Main
begin

section \<open>The goravel runtime bootstrap (goravel.go)\<close>

text \<open>
  A shallow embedding of \<^verbatim>\<open>goravel.go\<close>: the \<^verbatim>\<open>Goravel\<close> receiver, the four
  package-level handles, \<^verbatim>\<open>New\<close>, \<^verbatim>\<open>ListenAndServe\<close> and the constructors they call.
  Go strings are byte sequences (\<open>string\<close>), a nil pointer or nil interface is \<open>None\<close>,
  a Go \<^verbatim>\<open>error\<close> result is an \<open>error option\<close> (\<open>None\<close> is nil). Everything the
  file obtains from outside the program (the environment, the file system, the database
  driver, the embedded store, the schedule parser, the HTTP server) is a field of the
  record \<open>world\<close>, so every theorem holds for any behaviour of those collaborators.
\<close>

subsection \<open>Values supplied by libraries\<close>

datatype error = Error string

datatype sql_DB = SqlDB nat

datatype badger_DB = BadgerDB nat

text \<open>\<^verbatim>\<open>log.New(out, prefix, flag)\<close>; the flag bits are those of package \<^verbatim>\<open>log\<close>.\<close>

datatype log_Logger = log_New string string nat

definition Ldate :: nat where "Ldate = 1"
definition Ltime :: nat where "Ltime = 2"
definition Lshortfile :: nat where "Lshortfile = 16"

text \<open>\<^verbatim>\<open>time.Duration\<close> counts nanoseconds.\<close>

definition time_Second :: int where "time_Second = 1000000000"

text \<open>\<^verbatim>\<open>jet.NewSet(jet.NewOSFileSystemLoader(dir), jet.InDevelopmentMode())\<close>: the loader
  directory and whether development mode was requested.\<close>

datatype jet_Set = jet_NewSet string bool

text \<open>The router returned by \<^verbatim>\<open>grv.routes()\<close> (defined in another file of the package).\<close>

datatype chi_Mux = chi_Mux

text \<open>A buffered channel as \<^verbatim>\<open>cap\<close> and \<^verbatim>\<open>len\<close> observe it.\<close>

record chan =
  chan_cap :: nat
  chan_len :: nat

definition make_chan :: "nat \<Rightarrow> chan" where
  "make_chan n = \<lparr>chan_cap = n, chan_len = 0\<rparr>"

subsection \<open>The outside world\<close>

record world =
  Getenv :: "string \<Rightarrow> string"
  CreateDirIfNotExist :: "string \<Rightarrow> error option"
  Stat_IsNotExist :: "string \<Rightarrow> bool"
  os_Create :: "string \<Rightarrow> error option"
  godotenv_Load :: "string \<Rightarrow> error option"
  OpenDB :: "string \<Rightarrow> string \<Rightarrow> sql_DB option \<times> error option"
  badger_Open :: "string \<Rightarrow> badger_DB option \<times> error option"
  cron_Parse :: "string \<Rightarrow> error option"
  http_ListenAndServe :: "string \<Rightarrow> error"

text \<open>
  \<open>Getenv w k\<close> is \<^verbatim>\<open>os.Getenv(k)\<close> as the program observes it: every read in the file
  happens after \<^verbatim>\<open>godotenv.Load\<close> has merged the \<^verbatim>\<open>.env\<close> file into the environment, and
  an unset variable reads as the empty string. \<open>OpenDB\<close> and \<open>CreateDirIfNotExist\<close> are
  methods of the package defined in other files; \<open>cron_Parse\<close> is the outcome of the
  scheduler's schedule-expression parser, the only way \<^verbatim>\<open>AddFunc\<close> fails;
  \<open>http_ListenAndServe addr\<close> is the error with which the HTTP server stops serving.
\<close>

subsection \<open>strconv and strings\<close>

datatype strconv_err = ErrSyntax | ErrRange

definition is_digit :: "char \<Rightarrow> bool" where
  "is_digit c = (48 \<le> (of_char c :: nat) \<and> (of_char c :: nat) \<le> 57)"

definition digit_val :: "char \<Rightarrow> int" where
  "digit_val c = of_char c - 48"

definition maxUint64 :: int where "maxUint64 = 18446744073709551615"

text \<open>The \<^verbatim>\<open>uint64\<close> accumulator is an \<open>int\<close> that stays within 64 bits.
  The digit loop of \<^verbatim>\<open>strconv.ParseUint(s, 10, 64)\<close>: a byte that is no digit is a
  syntax error, and the loop stops with a range error as soon as the value leaves 64 bits.\<close>

fun ParseUint_loop :: "int \<Rightarrow> string \<Rightarrow> int \<times> strconv_err option" where
  "ParseUint_loop n [] = (n, None)"
| "ParseUint_loop n (c # cs) =
     (if \<not> is_digit c then (0, Some ErrSyntax)
      else if n \<ge> maxUint64 div 10 + 1 then (maxUint64, Some ErrRange)
      else if n * 10 + digit_val c > maxUint64 then (maxUint64, Some ErrRange)
      else ParseUint_loop (n * 10 + digit_val c) cs)"

definition ParseUint :: "string \<Rightarrow> int \<times> strconv_err option" where
  "ParseUint s = (if s = [] then (0, Some ErrSyntax) else ParseUint_loop 0 s)"

text \<open>\<^verbatim>\<open>strconv.ParseInt(s, 10, 0)\<close> on a platform whose \<^verbatim>\<open>int\<close> has 64 bits.\<close>

definition ParseInt :: "string \<Rightarrow> int \<times> strconv_err option" where
  "ParseInt s =
     (case s of
        [] \<Rightarrow> (0, Some ErrSyntax)
      | c # cs \<Rightarrow>
          (let neg = (c = CHR ''-'');
               s1 = (if c = CHR ''+'' \<or> c = CHR ''-'' then cs else s);
               (un, err) = ParseUint s1
           in if err = Some ErrSyntax then (0, err)
              else if \<not> neg \<and> un \<ge> 2 ^ 63 then (2 ^ 63 - 1, Some ErrRange)
              else if neg \<and> un > 2 ^ 63 then (- (2 ^ 63), Some ErrRange)
              else (if neg then - un else un, None)))"

text \<open>\<^verbatim>\<open>strconv.Atoi\<close> is \<^verbatim>\<open>ParseInt(s, 10, 0)\<close> converted to \<^verbatim>\<open>int\<close>; its fast path for
  short inputs computes the same pair.\<close>

definition Atoi :: "string \<Rightarrow> int \<times> strconv_err option" where
  "Atoi s = ParseInt s"

definition ParseBool :: "string \<Rightarrow> bool \<times> strconv_err option" where
  "ParseBool s =
     (if s \<in> set [''1'', ''t'', ''T'', ''TRUE'', ''true'', ''True''] then (True, None)
      else if s \<in> set [''0'', ''f'', ''F'', ''FALSE'', ''false'', ''False''] then (False, None)
      else (False, Some ErrSyntax))"

text \<open>
  \<^verbatim>\<open>strings.ToLower\<close> on the bytes of the string: an ASCII capital becomes its small
  letter and every other byte is kept. Go additionally maps the capital letters beyond
  ASCII; their images are again beyond ASCII, except for U+0130 and U+212A, which become
  \<^verbatim>\<open>i\<close> and \<^verbatim>\<open>k\<close>. The file compares the result with one ASCII word that contains
  neither letter, and for that comparison the two functions agree on every input.
\<close>

definition lower_byte :: "char \<Rightarrow> char" where
  "lower_byte c =
     (if 65 \<le> (of_char c :: nat) \<and> (of_char c :: nat) \<le> 90
      then char_of ((of_char c :: nat) + 32) else c)"

definition ToLower :: "string \<Rightarrow> string" where
  "ToLower s = map lower_byte s"

subsection \<open>The data of the package\<close>

record cookieConfig =
  name :: string
  lifetime :: string
  persist :: string
  secure :: string
  domain :: string

record databaseConfig =
  dsn :: string
  database :: string

record redisConfig =
  host :: string
  password :: string
  prefix :: string

record config =
  port :: string
  renderer :: string
  cookie :: cookieConfig
  sessionType :: string
  database :: databaseConfig
  redis :: redisConfig

record Server =
  ServerName :: string
  Port :: string
  Secure :: bool
  URL :: string

record Database =
  DataBaseType :: string
  Pool :: "sql_DB option"

record initPaths =
  rootPath :: string
  folderNames :: "string list"

text \<open>
  \<^verbatim>\<open>redis.Pool\<close>. The two function fields are closures. \<^verbatim>\<open>Dial\<close> captures the receiver
  pointer and reads \<^verbatim>\<open>grv.config.redis\<close> when it is called, so it is a function of the
  configuration record current at that moment, returning the arguments of
  \<^verbatim>\<open>redis.Dial\<close> (network, address, password). \<^verbatim>\<open>TestOnBorrow\<close> takes the connection's
  \<^verbatim>\<open>Do\<close> and returns the error of the command it sends.
\<close>

record redis_Pool =
  MaxIdle :: int
  MaxActive :: int
  IdleTimeout :: int
  Dial :: "config \<Rightarrow> string \<times> string \<times> string"
  TestOnBorrow :: "(string \<Rightarrow> error option) \<Rightarrow> error option"

record RedisCache =
  Conn :: "redis_Pool option"
  Prefix :: string

record BadgerCache =
  Conn :: "badger_DB option"
  Prefix :: string

text \<open>The interface \<^verbatim>\<open>cache.Cache\<close> with its two implementations.\<close>

datatype Cache = RedisFacade RedisCache | BadgerFacade BadgerCache

text \<open>The job closure registered by \<^verbatim>\<open>New\<close>: it reads the package variable
  \<^verbatim>\<open>myBadgerCache\<close> when it runs and calls \<^verbatim>\<open>RunValueLogGC\<close> with the given ratio.\<close>

datatype job = RunValueLogGC_myBadgerCache real

record Cron =
  entries :: "(string \<times> job) list"
  running :: bool

definition cron_New :: Cron where
  "cron_New = \<lparr>entries = [], running = False\<rparr>"

record Mail =
  Domain :: string
  Templates :: string
  Host :: string
  Port :: int
  Username :: string
  Password :: string
  Encryption :: string
  FromName :: string
  FromAddress :: string
  Jobs :: chan
  Results :: chan
  API :: string
  APIKey :: string
  APIUrl :: string

record Session =
  CookieLifeTime :: string
  CookiePersist :: string
  CookieName :: string
  SessionType :: string
  CookieDomain :: string
  RedisPool :: "redis_Pool option"
  DBPool :: "sql_DB option"

text \<open>The session manager built by \<^verbatim>\<open>sess.InitSession()\<close> (another package of the
  repository): kept as the settings it was built from.\<close>

datatype scs_SessionManager = InitSession Session

record Render =
  Renderer :: string
  RootPath :: string
  Port :: string
  JetViews :: "jet_Set option"
  Session :: "scs_SessionManager option"

record Goravel =
  AppName :: string
  Debug :: bool
  Version :: string
  ErrorLog :: "log_Logger option"
  InfoLog :: "log_Logger option"
  RootPath :: string
  Routes :: "chi_Mux option"
  Render :: "Render option"
  Session :: "scs_SessionManager option"
  DB :: Database
  JetViews :: "jet_Set option"
  config :: config
  EncryptionKey :: string
  Cache :: "Cache option"
  Scheduler :: "Cron option"
  Mail :: Mail
  Server :: Server

record http_Server =
  Addr :: string
  ErrorLog :: "log_Logger option"
  Handler :: "chi_Mux option"
  IdleTimeout :: int
  ReadTimeout :: int
  WriteTimeout :: int

definition version :: string where "version = ''1.0.0''"

subsection \<open>Process state and outcomes\<close>

text \<open>
  What the program does to its collaborators, in program order. \<open>EvServe\<close> is the call of
  the HTTP server's \<^verbatim>\<open>ListenAndServe\<close> (the process accepts traffic),
  \<open>EvGoListenForMail\<close> the statement \<^verbatim>\<open>go grv.Mail.ListenForMail()\<close> that starts the mail
  worker, \<open>EvLogError err\<close> the error \<open>err\<close> written to the error logger.
\<close>

datatype event =
    EvOpenDB string string
  | EvLogError error
  | EvLogInfo
  | EvCronNew
  | EvNewRedisPool
  | EvBadgerOpen string
  | EvNewRedisCache
  | EvNewBadgerCache
  | EvAddFunc string
  | EvNewMailer
  | EvInitSession
  | EvGoListenForMail
  | EvServe string
  | EvCloseDB sql_DB
  | EvCloseRedisPool
  | EvCloseBadger badger_DB
  | EvRunValueLogGC badger_DB real

text \<open>The receiver \<^verbatim>\<open>*grv\<close>, the package variables and the log of events.\<close>

record proc =
  grv :: Goravel
  myRedisCache :: "RedisCache option"
  myBadgerCache :: "BadgerCache option"
  redisPool :: "redis_Pool option"
  badgerConn :: "badger_DB option"
  trace :: "event list"

text \<open>How a function stops: it returns its \<^verbatim>\<open>error\<close>, the process exits through
  \<^verbatim>\<open>os.Exit\<close>, or a nil pointer is dereferenced and the goroutine panics.\<close>

datatype result = Return "error option" | Exit int | Panic

definition emit :: "event \<Rightarrow> proc \<Rightarrow> proc" where
  "emit e p = p\<lparr>trace := trace p @ [e]\<rparr>"

subsection \<open>Start-up helpers\<close>

text \<open>\<^verbatim>\<open>Init\<close>: the loop over the folder names stops at the first error.\<close>

fun Init_loop :: "world \<Rightarrow> string \<Rightarrow> string list \<Rightarrow> error option" where
  "Init_loop w dir [] = None"
| "Init_loop w dir (path # rest) =
     (case CreateDirIfNotExist w (dir @ ''/'' @ path) of
        Some err \<Rightarrow> Some err
      | None \<Rightarrow> Init_loop w dir rest)"

definition Init :: "world \<Rightarrow> initPaths \<Rightarrow> error option" where
  "Init w pc = Init_loop w (rootPath pc) (folderNames pc)"

definition CreateFileIfNotExist :: "world \<Rightarrow> string \<Rightarrow> error option" where
  "CreateFileIfNotExist w path =
     (if Stat_IsNotExist w path
      then (case os_Create w path of Some err \<Rightarrow> Some err | None \<Rightarrow> None)
      else None)"

definition checkDotEnv :: "world \<Rightarrow> string \<Rightarrow> error option" where
  "checkDotEnv w path =
     (case CreateFileIfNotExist w (path @ ''/.env'') of
        Some err \<Rightarrow> Some err
      | None \<Rightarrow> None)"

definition BuildDSN :: "world \<Rightarrow> string" where
  "BuildDSN w =
     (if Getenv w ''DATABASE_TYPE'' = ''postgres'' \<or> Getenv w ''DATABASE_TYPE'' = ''postgresql''
      then
        (let dsn = ''host='' @ Getenv w ''DATABASE_HOST'' @ '' port='' @ Getenv w ''DATABASE_PORT''
                 @ '' user='' @ Getenv w ''DATABASE_USER'' @ '' dbname='' @ Getenv w ''DATABASE_NAME''
                 @ '' sslmode='' @ Getenv w ''DATABASE_SSL_MODE''
                 @ '' timezone=UTC connect_timeout=5''
         in if Getenv w ''DATABASE_PASS'' \<noteq> []
            then dsn @ '' password='' @ Getenv w ''DATABASE_PASS''
            else dsn)
      else [])"

definition startLoggers :: "log_Logger \<times> log_Logger" where
  "startLoggers =
     (log_New ''stdout'' (''INFO'' @ [char_of (9::nat)]) (or Ldate Ltime),
      log_New ''stdout'' (''ERROR'' @ [char_of (9::nat)]) (or (or Ldate Ltime) Lshortfile))"

definition createRenderer :: "Goravel \<Rightarrow> Goravel" where
  "createRenderer g =
     g\<lparr>Goravel.Render := Some
         \<lparr>Renderer = renderer (Goravel.config g),
          RootPath = Goravel.RootPath g,
          Port = port (Goravel.config g),
          JetViews = Goravel.JetViews g,
          Session = Goravel.Session g\<rparr>\<rparr>"

definition createMailer :: "world \<Rightarrow> Goravel \<Rightarrow> Mail" where
  "createMailer w g =
     (let (port_no, _) = Atoi (Getenv w ''SMTP_PORT'')
      in \<lparr>Domain = Getenv w ''MAIL_DOMAIN'',
          Templates = Goravel.RootPath g @ ''/mail'',
          Host = Getenv w ''SMTP_HOST'',
          Port = port_no,
          Username = Getenv w ''SMTP_USERNAME'',
          Password = Getenv w ''SMTP_PASSWORD'',
          Encryption = Getenv w ''SMTP_ENCRYPTION'',
          FromName = Getenv w ''FROM_NAME'',
          FromAddress = Getenv w ''FROM_ADDRESS'',
          Jobs = make_chan 20,
          Results = make_chan 20,
          API = Getenv w ''MAILER_API'',
          APIKey = Getenv w ''MAILER_KEY'',
          APIUrl = Getenv w ''MAILER_URL''\<rparr>)"

definition createRedisPool :: "Goravel \<Rightarrow> redis_Pool" where
  "createRedisPool g =
     \<lparr>MaxIdle = 50,
      MaxActive = 10000,
      IdleTimeout = 240 * time_Second,
      Dial = (\<lambda>c. (''tcp'', host (redis c), password (redis c))),
      TestOnBorrow = (\<lambda>Do. Do ''PING'')\<rparr>"

definition createBadgerConn :: "world \<Rightarrow> Goravel \<Rightarrow> badger_DB option" where
  "createBadgerConn w g =
     (case badger_Open w (Goravel.RootPath g @ ''/tmp/badger'') of
        (db, Some err) \<Rightarrow> None
      | (db, None) \<Rightarrow> db)"

definition createClientRedisCache :: "Goravel \<Rightarrow> RedisCache" where
  "createClientRedisCache g =
     \<lparr>RedisCache.Conn = Some (createRedisPool g),
      RedisCache.Prefix = prefix (redis (Goravel.config g))\<rparr>"

definition createClientBadgerCache :: "world \<Rightarrow> Goravel \<Rightarrow> BadgerCache" where
  "createClientBadgerCache w g =
     \<lparr>BadgerCache.Conn = createBadgerConn w g,
      BadgerCache.Prefix = prefix (redis (Goravel.config g))\<rparr>"

text \<open>\<^verbatim>\<open>(*cron.Cron).AddFunc(spec, cmd)\<close>: the entry is added unless the expression does
  not parse.\<close>

definition cron_AddFunc :: "world \<Rightarrow> string \<Rightarrow> job \<Rightarrow> Cron \<Rightarrow> error option \<times> Cron" where
  "cron_AddFunc w spec cmd c =
     (case cron_Parse w spec of
        Some err \<Rightarrow> (Some err, c)
      | None \<Rightarrow> (None, c\<lparr>entries := entries c @ [(spec, cmd)]\<rparr>))"

text \<open>Running the registered closure: \<^verbatim>\<open>myBadgerCache.Conn.RunValueLogGC(ratio)\<close>
  dereferences both pointers.\<close>

fun run_job :: "job \<Rightarrow> proc \<Rightarrow> result option \<times> proc" where
  "run_job (RunValueLogGC_myBadgerCache ratio) p =
     (case myBadgerCache p of
        None \<Rightarrow> (Some Panic, p)
      | Some bc \<Rightarrow>
          (case BadgerCache.Conn bc of
             None \<Rightarrow> (Some Panic, p)
           | Some db \<Rightarrow> (None, emit (EvRunValueLogGC db ratio) p)))"

subsection \<open>New\<close>

text \<open>Lines 93--105, \<^verbatim>\<open>// connect to db\<close>. \<^verbatim>\<open>grv.ErrorLog.Println\<close> dereferences the
  logger, which \<^verbatim>\<open>New\<close> itself only sets further down.\<close>

definition New_connect_db :: "world \<Rightarrow> proc \<Rightarrow> result option \<times> proc" where
  "New_connect_db w p =
     (if Getenv w ''DATABASE_TYPE'' \<noteq> [] then
        (let p1 = emit (EvOpenDB (Getenv w ''DATABASE_TYPE'') (BuildDSN w)) p in
         case OpenDB w (Getenv w ''DATABASE_TYPE'') (BuildDSN w) of
           (db, Some err) \<Rightarrow>
             (case Goravel.ErrorLog (grv p1) of
                None \<Rightarrow> (Some Panic, p1)
              | Some l \<Rightarrow> (Some (Exit 1), emit (EvLogError err) p1))
         | (db, None) \<Rightarrow>
             (None, p1\<lparr>grv := (grv p1)\<lparr>DB :=
                \<lparr>DataBaseType = Getenv w ''DATABASE_TYPE'', Pool = db\<rparr>\<rparr>\<rparr>))
      else (None, p))"

text \<open>Lines 107--127: the scheduler and \<^verbatim>\<open>// create cache\<close>.\<close>

definition New_create_cache :: "world \<Rightarrow> proc \<Rightarrow> result option \<times> proc" where
  "New_create_cache w p =
     (let scheduler = cron_New;
          p1 = (emit EvCronNew p)\<lparr>grv := (grv p)\<lparr>Scheduler := Some scheduler\<rparr>\<rparr>;
          p2 = (if Getenv w ''CACHE'' = ''redis'' \<or> Getenv w ''SESSION_TYPE'' = ''redis''
                then (let rc = createClientRedisCache (grv p1);
                          pa = emit EvNewRedisCache (emit EvNewRedisPool p1)
                      in pa\<lparr>myRedisCache := Some rc,
                            grv := (grv pa)\<lparr>Cache := Some (RedisFacade rc)\<rparr>,
                            redisPool := RedisCache.Conn rc\<rparr>)
                else p1)
      in if Getenv w ''CACHE'' = ''badger''
         then (let bc = createClientBadgerCache w (grv p2);
                   pb = emit EvNewBadgerCache
                          (emit (EvBadgerOpen (Goravel.RootPath (grv p2) @ ''/tmp/badger'')) p2);
                   p3 = pb\<lparr>myBadgerCache := Some bc,
                           grv := (grv pb)\<lparr>Cache := Some (BadgerFacade bc)\<rparr>,
                           badgerConn := BadgerCache.Conn bc\<rparr>
               in case cron_AddFunc w ''@daily'' (RunValueLogGC_myBadgerCache (7 / 10)) scheduler of
                    (Some err, sch) \<Rightarrow> (Some (Return (Some err)), p3)
                  | (None, sch) \<Rightarrow>
                      (None, (emit (EvAddFunc ''@daily'') p3)
                               \<lparr>grv := (grv p3)\<lparr>Scheduler := Some sch\<rparr>\<rparr>))
         else (None, p2))"

text \<open>Lines 129--175: loggers, flags, the mailer, the routes, the configuration record
  and the server description.\<close>

definition New_configure :: "world \<Rightarrow> string \<Rightarrow> proc \<Rightarrow> proc" where
  "New_configure w rootDir p =
     (let (infoLog, errorLog) = startLoggers;
          g1 = (grv p)\<lparr>Goravel.InfoLog := Some infoLog, Goravel.ErrorLog := Some errorLog\<rparr>;
          g2 = g1\<lparr>Debug := fst (ParseBool (Getenv w ''DEBUG'')),
                  Version := version,
                  Goravel.RootPath := rootDir\<rparr>;
          g3 = g2\<lparr>Mail := createMailer w g2\<rparr>;
          g4 = g3\<lparr>Routes := Some chi_Mux\<rparr>;
          g5 = g4\<lparr>Goravel.config :=
                 \<lparr>port = Getenv w ''PORT'',
                  renderer = Getenv w ''RENDERER'',
                  cookie = \<lparr>name = Getenv w ''COOKIE_NAME'',
                            lifetime = Getenv w ''COOKIE_LIFETIME'',
                            persist = Getenv w ''COOKIE_PERSISTS'',
                            secure = Getenv w ''COOKIE_SECURE'',
                            domain = Getenv w ''COOKIE_DOMAIN''\<rparr>,
                  sessionType = Getenv w ''SESSION_TYPE'',
                  database = \<lparr>dsn = BuildDSN w,
                              databaseConfig.database = Getenv w ''DATABASE_TYPE''\<rparr>,
                  redis = \<lparr>host = Getenv w ''REDIS_HOST'',
                           password = Getenv w ''REDIS_PASSWORD'',
                           prefix = Getenv w ''REDIS_PREFIX''\<rparr>\<rparr>\<rparr>;
          sec = (if ToLower (Getenv w ''SECURE'') = ''false'' then False else True);
          g6 = g5\<lparr>Server :=
                 \<lparr>ServerName = Getenv w ''SEVER_NAME'',
                  Server.Port = Getenv w ''PORT'',
                  Secure = sec,
                  URL = Getenv w ''APP_URL''\<rparr>\<rparr>
      in (emit EvNewMailer p)\<lparr>grv := g6\<rparr>)"

text \<open>Lines 177--197, \<^verbatim>\<open>// create a Session\<close>. The branch for \<^verbatim>\<open>redis\<close> dereferences the
  package variable \<^verbatim>\<open>myRedisCache\<close>.\<close>

definition New_create_session :: "proc \<Rightarrow> result option \<times> proc" where
  "New_create_session p =
     (let g = grv p;
          sess = \<lparr>CookieLifeTime = lifetime (cookie (Goravel.config g)),
                  CookiePersist = persist (cookie (Goravel.config g)),
                  CookieName = name (cookie (Goravel.config g)),
                  SessionType = sessionType (Goravel.config g),
                  CookieDomain = domain (cookie (Goravel.config g)),
                  RedisPool = None,
                  DBPool = None\<rparr>;
          st = sessionType (Goravel.config g)
      in if st = ''redis'' then
           (case myRedisCache p of
              None \<Rightarrow> (Some Panic, p)
            | Some rc \<Rightarrow>
                (None, (emit EvInitSession p)\<lparr>grv := g\<lparr>Goravel.Session :=
                   Some (InitSession (sess\<lparr>RedisPool := RedisCache.Conn rc\<rparr>))\<rparr>\<rparr>))
         else if st \<in> set [''mysql'', ''postgres'', ''mariadb'', ''postgresql''] then
           (None, (emit EvInitSession p)\<lparr>grv := g\<lparr>Goravel.Session :=
              Some (InitSession (sess\<lparr>DBPool := Pool (DB g)\<rparr>))\<rparr>\<rparr>)
         else
           (None, (emit EvInitSession p)\<lparr>grv := g\<lparr>Goravel.Session :=
              Some (InitSession sess)\<rparr>\<rparr>))"

text \<open>Lines 199--218: the key, the template set, the renderer and the mail worker.\<close>

definition New_finish :: "world \<Rightarrow> string \<Rightarrow> proc \<Rightarrow> proc" where
  "New_finish w rootDir p =
     (let g1 = (grv p)\<lparr>EncryptionKey := Getenv w ''KEY''\<rparr>;
          g2 = (if Debug g1
                then g1\<lparr>Goravel.JetViews := Some (jet_NewSet (rootDir @ ''/views'') True)\<rparr>
                else g1\<lparr>Goravel.JetViews := Some (jet_NewSet (rootDir @ ''/views'') False)\<rparr>);
          g3 = createRenderer g2
      in emit EvGoListenForMail (p\<lparr>grv := g3\<rparr>))"

definition New :: "world \<Rightarrow> string \<Rightarrow> proc \<Rightarrow> result \<times> proc" where
  "New w rootDir p =
     (let pathConfig =
            \<lparr>rootPath = rootDir,
             folderNames = [''handlers'', ''migrations'', ''views'', ''mail'', ''data'',
                            ''public'', ''tmp'', ''logs'', ''middleware'']\<rparr>
      in case Init w pathConfig of
           Some err \<Rightarrow> (Return (Some err), p)
         | None \<Rightarrow>
       (case checkDotEnv w rootDir of
           Some err \<Rightarrow> (Return (Some err), p)
         | None \<Rightarrow>
       (case godotenv_Load w (rootDir @ ''/.env'') of
           Some err \<Rightarrow> (Return (Some err), p)
         | None \<Rightarrow>
       (case New_connect_db w p of
           (Some r, p1) \<Rightarrow> (r, p1)
         | (None, p1) \<Rightarrow>
       (case New_create_cache w p1 of
           (Some r, p2) \<Rightarrow> (r, p2)
         | (None, p2) \<Rightarrow>
       (case New_create_session (New_configure w rootDir p2) of
           (Some r, p3) \<Rightarrow> (r, p3)
         | (None, p3) \<Rightarrow> (Return None, New_finish w rootDir p3)))))))"

subsection \<open>ListenAndServe\<close>

text \<open>
  A \<^verbatim>\<open>defer\<close> statement evaluates the receiver of the call at once and postpones the
  call itself. Postponed calls run, last first, when the function returns or panics;
  \<^verbatim>\<open>os.Exit\<close> ends the process without running them.
\<close>

datatype deferred = DeferCloseDB sql_DB | DeferCloseRedisPool | DeferCloseBadger badger_DB

fun run_deferred :: "deferred \<Rightarrow> proc \<Rightarrow> proc" where
  "run_deferred (DeferCloseDB db) p = emit (EvCloseDB db) p"
| "run_deferred DeferCloseRedisPool p = emit EvCloseRedisPool p"
| "run_deferred (DeferCloseBadger b) p = emit (EvCloseBadger b) p"

text \<open>The stack of postponed calls, most recent first.\<close>

fun run_defers :: "deferred list \<Rightarrow> proc \<Rightarrow> proc" where
  "run_defers [] p = p"
| "run_defers (d # ds) p = run_defers ds (run_deferred d p)"

text \<open>
  \<^verbatim>\<open>(*log.Logger).Fatal\<close> writes the message and calls \<^verbatim>\<open>os.Exit(1)\<close>; on a nil logger
  the call panics instead, as \<^verbatim>\<open>Printf\<close> does.
\<close>

definition ListenAndServe :: "world \<Rightarrow> proc \<Rightarrow> result \<times> proc" where
  "ListenAndServe w p =
     (let g = grv p;
          srv = \<lparr>Addr = '':'' @ Getenv w ''PORT'',
                 ErrorLog = Goravel.ErrorLog g,
                 Handler = Routes g,
                 IdleTimeout = 30 * time_Second,
                 ReadTimeout = 30 * time_Second,
                 WriteTimeout = 600 * time_Second\<rparr>;
          ds1 = (case Pool (DB g) of Some db \<Rightarrow> [DeferCloseDB db] | None \<Rightarrow> []);
          ds2 = (case redisPool p of Some rp \<Rightarrow> DeferCloseRedisPool # ds1 | None \<Rightarrow> ds1);
          ds3 = (case badgerConn p of Some b \<Rightarrow> DeferCloseBadger b # ds2 | None \<Rightarrow> ds2)
      in case Goravel.InfoLog g of
           None \<Rightarrow> (Panic, run_defers ds3 p)
         | Some il \<Rightarrow>
             (let p1 = emit EvLogInfo p;
                  p2 = emit (EvServe (Addr srv)) p1;
                  err = http_ListenAndServe w (Addr srv)
              in case Goravel.ErrorLog g of
                   None \<Rightarrow> (Panic, run_defers ds3 p2)
                 | Some el \<Rightarrow> (Exit 1, emit (EvLogError err) p2)))"

subsection \<open>Concrete processes\<close>

text \<open>The zero value of the receiver and of the package variables: the state in which an
  application calls \<^verbatim>\<open>New\<close> on \<^verbatim>\<open>&goravel.Goravel{}\<close>.\<close>

definition config0 :: config where
  "config0 =
     \<lparr>port = [], renderer = [],
      cookie = \<lparr>name = [], lifetime = [], persist = [], secure = [], domain = []\<rparr>,
      sessionType = [],
      database = \<lparr>dsn = [], databaseConfig.database = []\<rparr>,
      redis = \<lparr>host = [], password = [], prefix = []\<rparr>\<rparr>"

definition Mail0 :: Mail where
  "Mail0 =
     \<lparr>Domain = [], Templates = [], Host = [], Port = 0, Username = [], Password = [],
      Encryption = [], FromName = [], FromAddress = [],
      Jobs = make_chan 0, Results = make_chan 0, API = [], APIKey = [], APIUrl = []\<rparr>"

definition Goravel0 :: Goravel where
  "Goravel0 =
     \<lparr>AppName = [], Debug = False, Version = [], ErrorLog = None, InfoLog = None,
      RootPath = [], Routes = None, Render = None, Session = None,
      DB = \<lparr>DataBaseType = [], Pool = None\<rparr>, JetViews = None, config = config0,
      EncryptionKey = [], Cache = None, Scheduler = None, Mail = Mail0,
      Server = \<lparr>ServerName = [], Server.Port = [], Secure = False, URL = []\<rparr>\<rparr>"

definition proc0 :: proc where
  "proc0 =
     \<lparr>grv = Goravel0, myRedisCache = None, myBadgerCache = None, redisPool = None,
      badgerConn = None, trace = []\<rparr>"

text \<open>An environment given by a list of settings, and a world in which every
  collaborator succeeds.\<close>

definition env_of :: "(string \<times> string) list \<Rightarrow> string \<Rightarrow> string" where
  "env_of kvs k = (case map_of kvs k of None \<Rightarrow> [] | Some v \<Rightarrow> v)"

definition world_ok :: "(string \<times> string) list \<Rightarrow> world" where
  "world_ok kvs =
     \<lparr>Getenv = env_of kvs,
      CreateDirIfNotExist = (\<lambda>path. None),
      Stat_IsNotExist = (\<lambda>path. False),
      os_Create = (\<lambda>path. None),
      godotenv_Load = (\<lambda>path. None),
      OpenDB = (\<lambda>dbType dsn. (Some (SqlDB 1), None)),
      badger_Open = (\<lambda>path. (Some (BadgerDB 1), None)),
      cron_Parse = (\<lambda>spec. None),
      http_ListenAndServe = (\<lambda>addr. Error ''http: Server closed'')\<rparr>"

subsection \<open>Vocabulary of the specification\<close>

text \<open>The two cache backends of the specification, and the one a facade value is.\<close>

datatype backend = NetworkCache | EmbeddedStore

fun backend_of :: "Cache \<Rightarrow> backend" where
  "backend_of (RedisFacade rc) = NetworkCache"
| "backend_of (BadgerFacade bc) = EmbeddedStore"

text \<open>The namespace prefix a facade carries.\<close>

fun facade_prefix :: "Cache \<Rightarrow> string" where
  "facade_prefix (RedisFacade rc) = RedisCache.Prefix rc"
| "facade_prefix (BadgerFacade bc) = BadgerCache.Prefix bc"

text \<open>The word \<^verbatim>\<open>false\<close> in any mixture of capitals and small letters.\<close>

definition false_ignoring_case :: "string \<Rightarrow> bool" where
  "false_ignoring_case s =
     (case s of
        [c1, c2, c3, c4, c5] \<Rightarrow>
          (c1 = CHR ''f'' \<or> c1 = CHR ''F'') \<and> (c2 = CHR ''a'' \<or> c2 = CHR ''A'') \<and>
          (c3 = CHR ''l'' \<or> c3 = CHR ''L'') \<and> (c4 = CHR ''s'' \<or> c4 = CHR ''S'') \<and>
          (c5 = CHR ''e'' \<or> c5 = CHR ''E'')
      | _ \<Rightarrow> False)"

text \<open>
  How start-up can fail: \<^verbatim>\<open>New\<close> returns an error, or the process is aborted because
  of an error. The function \<open>startup_failure\<close> lists the failures that are fatal, in the
  order in which \<^verbatim>\<open>New\<close> meets them: a folder that cannot be created, the \<^verbatim>\<open>.env\<close> file
  that cannot be created or loaded, the database that cannot be opened, the maintenance
  job that cannot be registered.
\<close>

datatype startup_fail = ReturnsError error | AbortsProcess error

definition startup_failure :: "world \<Rightarrow> string \<Rightarrow> startup_fail option" where
  "startup_failure w rootDir =
     (case Init_loop w rootDir [''handlers'', ''migrations'', ''views'', ''mail'', ''data'',
                               ''public'', ''tmp'', ''logs'', ''middleware''] of
        Some err \<Rightarrow> Some (ReturnsError err)
      | None \<Rightarrow>
     (case checkDotEnv w rootDir of
        Some err \<Rightarrow> Some (ReturnsError err)
      | None \<Rightarrow>
     (case godotenv_Load w (rootDir @ ''/.env'') of
        Some err \<Rightarrow> Some (ReturnsError err)
      | None \<Rightarrow>
     (case (if Getenv w ''DATABASE_TYPE'' \<noteq> []
            then snd (OpenDB w (Getenv w ''DATABASE_TYPE'') (BuildDSN w)) else None) of
        Some err \<Rightarrow> Some (AbortsProcess err)
      | None \<Rightarrow>
        if Getenv w ''CACHE'' = ''badger''
        then (case cron_Parse w ''@daily'' of
                Some err \<Rightarrow> Some (ReturnsError err)
              | None \<Rightarrow> None)
        else None))))"

subsection \<open>Example processes\<close>

text \<open>The embedded store is selected and a prefix is configured.\<close>

definition w_badger :: world where
  "w_badger = world_ok [(''CACHE'', ''badger''), (''REDIS_PREFIX'', ''myapp'')]"

text \<open>The same, but the store on disk cannot be opened.\<close>

definition w_badger_fails :: world where
  "w_badger_fails =
     (world_ok [(''CACHE'', ''badger'')])
       \<lparr>badger_Open := (\<lambda>path. (None, Some (Error ''Cannot acquire directory lock'')))\<rparr>"

text \<open>The network cache is selected and a prefix is configured.\<close>

definition w_redis :: world where
  "w_redis = world_ok [(''CACHE'', ''redis''), (''REDIS_PREFIX'', ''myapp''),
                       (''REDIS_HOST'', ''localhost:6379'')]"

text \<open>The network cache, with settings that name the three pool bounds.\<close>

definition w_redis_bounds :: world where
  "w_redis_bounds =
     world_ok [(''CACHE'', ''redis''), (''maxIdle'', ''7''), (''maxActive'', ''100''),
               (''idleTimeout'', ''10''), (''REDIS_MAX_IDLE'', ''7''),
               (''REDIS_MAX_ACTIVE'', ''100''), (''REDIS_IDLE_TIMEOUT'', ''10'')]"

text \<open>No cache setting at all; and no cache setting, with sessions kept in redis.\<close>

definition w_plain :: world where
  "w_plain = world_ok []"

definition w_session_redis :: world where
  "w_session_redis = world_ok [(''SESSION_TYPE'', ''redis'')]"

text \<open>An SMTP port that is no number.\<close>

definition w_bad_port :: world where
  "w_bad_port = world_ok [(''SMTP_PORT'', ''abc''), (''SMTP_HOST'', ''mail.example.com'')]"

text \<open>The server is declared insecure, in capitals.\<close>

definition w_insecure :: world where
  "w_insecure = world_ok [(''SECURE'', ''FALSE'')]"

text \<open>A database, the embedded store and redis sessions: all three handles exist.\<close>

definition w_all :: world where
  "w_all = world_ok [(''DATABASE_TYPE'', ''postgres''), (''CACHE'', ''badger''),
                     (''SESSION_TYPE'', ''redis''), (''PORT'', ''4000'')]"

text \<open>A database is configured and cannot be reached.\<close>

definition w_db_down :: world where
  "w_db_down =
     (world_ok [(''DATABASE_TYPE'', ''postgres'')])
       \<lparr>OpenDB := (\<lambda>dbType dsn. (None, Some (Error ''connection refused'')))\<rparr>"

text \<open>The \<^verbatim>\<open>.env\<close> file cannot be loaded.\<close>

definition w_no_dotenv :: world where
  "w_no_dotenv =
     (world_ok [(''CACHE'', ''redis'')])
       \<lparr>godotenv_Load := (\<lambda>path. Some (Error ''unexpected character in variable name''))\<rparr>"

text \<open>A receiver on which the application has set an error logger before calling
  \<^verbatim>\<open>New\<close>.\<close>

definition proc_logged :: proc where
  "proc_logged = proc0\<lparr>grv := Goravel0\<lparr>Goravel.ErrorLog := Some (snd startLoggers)\<rparr>\<rparr>"

section \<open>Properties\<close>

subsection \<open>Lower-casing and the word false\<close>

lemma lower_byte_f: "lower_byte c = CHR ''f'' \<longleftrightarrow> c = CHR ''f'' \<or> c = CHR ''F''"
  by (cases c) (auto simp: lower_byte_def char_of_eq_iff)

lemma lower_byte_a: "lower_byte c = CHR ''a'' \<longleftrightarrow> c = CHR ''a'' \<or> c = CHR ''A''"
  by (cases c) (auto simp: lower_byte_def char_of_eq_iff)

lemma lower_byte_l: "lower_byte c = CHR ''l'' \<longleftrightarrow> c = CHR ''l'' \<or> c = CHR ''L''"
  by (cases c) (auto simp: lower_byte_def char_of_eq_iff)

lemma lower_byte_s: "lower_byte c = CHR ''s'' \<longleftrightarrow> c = CHR ''s'' \<or> c = CHR ''S''"
  by (cases c) (auto simp: lower_byte_def char_of_eq_iff)

lemma lower_byte_e: "lower_byte c = CHR ''e'' \<longleftrightarrow> c = CHR ''e'' \<or> c = CHR ''E''"
  by (cases c) (auto simp: lower_byte_def char_of_eq_iff)

lemma ToLower_false_iff: "ToLower s = ''false'' \<longleftrightarrow> false_ignoring_case s"
  unfolding ToLower_def false_ignoring_case_def
  by (simp add: map_eq_Cons_conv lower_byte_f lower_byte_a lower_byte_l lower_byte_s lower_byte_e
      split: list.splits)

subsection \<open>The blocks of New\<close>

lemmas world_defs = world_ok_def env_of_def w_badger_def w_badger_fails_def w_redis_def
  w_redis_bounds_def w_plain_def w_session_redis_def w_bad_port_def w_insecure_def w_all_def
  w_db_down_def w_no_dotenv_def

lemma New_connect_db_result:
  "fst (New_connect_db w p) =
     (if Getenv w ''DATABASE_TYPE'' \<noteq> [] \<and>
         snd (OpenDB w (Getenv w ''DATABASE_TYPE'') (BuildDSN w)) \<noteq> None
      then (if Goravel.ErrorLog (grv p) = None then Some Panic else Some (Exit 1))
      else None)"
  by (auto simp: New_connect_db_def Let_def emit_def split: prod.splits option.splits)

lemma New_create_cache_result:
  "fst (New_create_cache w p) =
     (if Getenv w ''CACHE'' = ''badger''
      then (case cron_Parse w ''@daily'' of
              Some err \<Rightarrow> Some (Return (Some err))
            | None \<Rightarrow> None)
      else None)"
  by (auto simp: New_create_cache_def Let_def cron_AddFunc_def split: prod.splits option.splits)

lemma New_create_cache_myRedisCache:
  "Getenv w ''SESSION_TYPE'' = ''redis'' \<Longrightarrow> myRedisCache (snd (New_create_cache w p)) \<noteq> None"
  by (auto simp: New_create_cache_def Let_def cron_AddFunc_def emit_def split: prod.splits option.splits)

lemma New_configure_fields:
  "myRedisCache (New_configure w d p) = myRedisCache p"
  "sessionType (Goravel.config (grv (New_configure w d p))) = Getenv w ''SESSION_TYPE''"
  by (simp_all add: New_configure_def Let_def emit_def startLoggers_def split: prod.splits)

lemma New_create_session_result:
  "fst (New_create_session p) =
     (if sessionType (Goravel.config (grv p)) = ''redis'' \<and> myRedisCache p = None
      then Some Panic else None)"
  by (auto simp: New_create_session_def Let_def split: option.splits)

lemma New_result:
  "fst (New w d p) =
     (case Init_loop w d [''handlers'', ''migrations'', ''views'', ''mail'', ''data'',
                          ''public'', ''tmp'', ''logs'', ''middleware''] of
        Some err \<Rightarrow> Return (Some err)
      | None \<Rightarrow>
     (case checkDotEnv w d of
        Some err \<Rightarrow> Return (Some err)
      | None \<Rightarrow>
     (case godotenv_Load w (d @ ''/.env'') of
        Some err \<Rightarrow> Return (Some err)
      | None \<Rightarrow>
        if Getenv w ''DATABASE_TYPE'' \<noteq> [] \<and>
           snd (OpenDB w (Getenv w ''DATABASE_TYPE'') (BuildDSN w)) \<noteq> None
        then (if Goravel.ErrorLog (grv p) = None then Panic else Exit 1)
        else if Getenv w ''CACHE'' = ''badger''
        then (case cron_Parse w ''@daily'' of
                Some err \<Rightarrow> Return (Some err)
              | None \<Rightarrow> Return None)
        else Return None)))"
proof -
  obtain r1 p1 where c1: "New_connect_db w p = (r1, p1)" by (cases "New_connect_db w p")
  obtain r2 p2 where c2: "New_create_cache w p1 = (r2, p2)" by (cases "New_create_cache w p1")
  obtain r3 p3 where c3: "New_create_session (New_configure w d p2) = (r3, p3)"
    by (cases "New_create_session (New_configure w d p2)")
  have "myRedisCache p2 \<noteq> None" if "Getenv w ''SESSION_TYPE'' = ''redis''"
    using New_create_cache_myRedisCache[OF that, of p1] c2 by simp
  then have r3: "r3 = None"
    using New_create_session_result[of "New_configure w d p2"] c3
    by (auto simp: New_configure_fields)
  have r1: "r1 = (if Getenv w ''DATABASE_TYPE'' \<noteq> [] \<and>
         snd (OpenDB w (Getenv w ''DATABASE_TYPE'') (BuildDSN w)) \<noteq> None
      then (if Goravel.ErrorLog (grv p) = None then Some Panic else Some (Exit 1))
      else None)"
    using New_connect_db_result[of w p] c1 by simp
  have r2: "r2 = (if Getenv w ''CACHE'' = ''badger''
      then (case cron_Parse w ''@daily'' of
              Some err \<Rightarrow> Some (Return (Some err))
            | None \<Rightarrow> None)
      else None)"
    using New_create_cache_result[of w p1] c2 by simp
  show ?thesis
    by (simp add: New_def Init_def Let_def c1 c2 c3 r1 r2 r3 del: Init_loop.simps
        split: option.splits)
qed


lemma New_ok_state:
  assumes "fst (New w d p) = Return None"
  shows "snd (New w d p) =
     New_finish w d (snd (New_create_session (New_configure w d
       (snd (New_create_cache w (snd (New_connect_db w p)))))))"
proof -
  obtain r1 p1 where c1: "New_connect_db w p = (r1, p1)" by (cases "New_connect_db w p")
  obtain r2 p2 where c2: "New_create_cache w p1 = (r2, p2)" by (cases "New_create_cache w p1")
  obtain r3 p3 where c3: "New_create_session (New_configure w d p2) = (r3, p3)"
    by (cases "New_create_session (New_configure w d p2)")
  have r1: "r1 \<noteq> Some (Return None)"
    using New_connect_db_result[of w p] c1 by (auto split: if_splits)
  have r2: "r2 \<noteq> Some (Return None)"
    using New_create_cache_result[of w p1] c2 by (auto split: if_splits option.splits)
  have r3: "r3 \<noteq> Some (Return None)"
    using New_create_session_result[of "New_configure w d p2"] c3 by (auto split: if_splits)
  show ?thesis
    using assms r1 r2 r3
    by (auto simp: New_def Init_def Let_def c1 c2 c3 simp del: Init_loop.simps
        split: option.splits)
qed

lemma New_finish_fields:
  "trace (New_finish w d p) = trace p @ [EvGoListenForMail]"
  "Cache (grv (New_finish w d p)) = Cache (grv p)"
  "Scheduler (grv (New_finish w d p)) = Scheduler (grv p)"
  "Server (grv (New_finish w d p)) = Server (grv p)"
  "Mail (grv (New_finish w d p)) = Mail (grv p)"
  "Goravel.config (grv (New_finish w d p)) = Goravel.config (grv p)"
  "DB (grv (New_finish w d p)) = DB (grv p)"
  "myRedisCache (New_finish w d p) = myRedisCache p"
  "myBadgerCache (New_finish w d p) = myBadgerCache p"
  "redisPool (New_finish w d p) = redisPool p"
  "badgerConn (New_finish w d p) = badgerConn p"
  by (simp_all add: New_finish_def Let_def emit_def createRenderer_def)

lemma New_create_session_fields:
  assumes "fst (New_create_session p) = None"
  shows "trace (snd (New_create_session p)) = trace p @ [EvInitSession]"
  "Cache (grv (snd (New_create_session p))) = Cache (grv p)"
  "Scheduler (grv (snd (New_create_session p))) = Scheduler (grv p)"
  "Server (grv (snd (New_create_session p))) = Server (grv p)"
  "Mail (grv (snd (New_create_session p))) = Mail (grv p)"
  "Goravel.config (grv (snd (New_create_session p))) = Goravel.config (grv p)"
  "DB (grv (snd (New_create_session p))) = DB (grv p)"
  "myRedisCache (snd (New_create_session p)) = myRedisCache p"
  "myBadgerCache (snd (New_create_session p)) = myBadgerCache p"
  "redisPool (snd (New_create_session p)) = redisPool p"
  "badgerConn (snd (New_create_session p)) = badgerConn p"
  using assms
  by (simp_all add: New_create_session_def Let_def emit_def split: option.splits if_splits)

lemma New_configure_keeps:
  "trace (New_configure w d p) = trace p @ [EvNewMailer]"
  "Cache (grv (New_configure w d p)) = Cache (grv p)"
  "Scheduler (grv (New_configure w d p)) = Scheduler (grv p)"
  "DB (grv (New_configure w d p)) = DB (grv p)"
  "myBadgerCache (New_configure w d p) = myBadgerCache p"
  "redisPool (New_configure w d p) = redisPool p"
  "badgerConn (New_configure w d p) = badgerConn p"
  by (simp_all add: New_configure_def Let_def emit_def startLoggers_def split: prod.splits)

lemma New_configure_sets:
  "Secure (Server (grv (New_configure w d p))) = (ToLower (Getenv w ''SECURE'') \<noteq> ''false'')"
  "Mail (grv (New_configure w d p)) = createMailer w ((grv p)\<lparr>Goravel.RootPath := d\<rparr>)"
  "redis (Goravel.config (grv (New_configure w d p))) =
     \<lparr>host = Getenv w ''REDIS_HOST'', password = Getenv w ''REDIS_PASSWORD'',
      prefix = Getenv w ''REDIS_PREFIX''\<rparr>"
  by (simp_all add: New_configure_def Let_def emit_def createMailer_def split: prod.splits)

lemma createMailer_fields:
  "Jobs (createMailer w g) = make_chan 20"
  "Results (createMailer w g) = make_chan 20"
  "Mail.Port (createMailer w g) = fst (Atoi (Getenv w ''SMTP_PORT''))"
  by (simp_all add: createMailer_def split: prod.splits)

lemma New_create_cache_trace:
  "fst (New_create_cache w p) = None \<Longrightarrow>
   trace (snd (New_create_cache w p)) =
     trace p @ [EvCronNew]
     @ (if Getenv w ''CACHE'' = ''redis'' \<or> Getenv w ''SESSION_TYPE'' = ''redis''
        then [EvNewRedisPool, EvNewRedisCache] else [])
     @ (if Getenv w ''CACHE'' = ''badger''
        then [EvBadgerOpen (Goravel.RootPath (grv p) @ ''/tmp/badger''), EvNewBadgerCache,
              EvAddFunc ''@daily'']
        else [])"
  by (auto simp: New_create_cache_def Let_def emit_def cron_AddFunc_def
      split: option.splits prod.splits)

lemma New_create_cache_Scheduler:
  "fst (New_create_cache w p) = None \<Longrightarrow>
   Scheduler (grv (snd (New_create_cache w p))) =
     Some \<lparr>entries = (if Getenv w ''CACHE'' = ''badger''
                       then [(''@daily'', RunValueLogGC_myBadgerCache (7 / 10))] else []),
           running = False\<rparr>"
  by (auto simp: New_create_cache_def Let_def emit_def cron_AddFunc_def cron_New_def
      split: option.splits prod.splits)

lemma New_create_cache_Cache:
  "Cache (grv (snd (New_create_cache w p))) =
     (if Getenv w ''CACHE'' = ''badger''
      then Some (BadgerFacade \<lparr>BadgerCache.Conn = createBadgerConn w (grv p),
                               BadgerCache.Prefix = prefix (redis (Goravel.config (grv p)))\<rparr>)
      else if Getenv w ''CACHE'' = ''redis'' \<or> Getenv w ''SESSION_TYPE'' = ''redis''
      then Some (RedisFacade \<lparr>RedisCache.Conn = Some (createRedisPool (grv p)),
                              RedisCache.Prefix = prefix (redis (Goravel.config (grv p)))\<rparr>)
      else Cache (grv p))"
  by (auto simp: New_create_cache_def Let_def emit_def cron_AddFunc_def cron_New_def
      createClientBadgerCache_def createClientRedisCache_def createBadgerConn_def createRedisPool_def
      split: option.splits prod.splits)

lemma New_create_cache_globals:
  "myBadgerCache (snd (New_create_cache w p)) =
     (if Getenv w ''CACHE'' = ''badger''
      then Some \<lparr>BadgerCache.Conn = createBadgerConn w (grv p),
                 BadgerCache.Prefix = prefix (redis (Goravel.config (grv p)))\<rparr>
      else myBadgerCache p)"
  "badgerConn (snd (New_create_cache w p)) =
     (if Getenv w ''CACHE'' = ''badger'' then createBadgerConn w (grv p) else badgerConn p)"
  "myRedisCache (snd (New_create_cache w p)) =
     (if Getenv w ''CACHE'' = ''redis'' \<or> Getenv w ''SESSION_TYPE'' = ''redis''
      then Some \<lparr>RedisCache.Conn = Some (createRedisPool (grv p)),
                 RedisCache.Prefix = prefix (redis (Goravel.config (grv p)))\<rparr>
      else myRedisCache p)"
  "redisPool (snd (New_create_cache w p)) =
     (if Getenv w ''CACHE'' = ''redis'' \<or> Getenv w ''SESSION_TYPE'' = ''redis''
      then Some (createRedisPool (grv p)) else redisPool p)"
  "DB (grv (snd (New_create_cache w p))) = DB (grv p)"
  by (auto simp: New_create_cache_def Let_def emit_def cron_AddFunc_def cron_New_def
      createClientBadgerCache_def createClientRedisCache_def createBadgerConn_def createRedisPool_def
      split: option.splits prod.splits)

lemma New_connect_db_trace:
  "fst (New_connect_db w p) = None \<Longrightarrow>
   trace (snd (New_connect_db w p)) =
     trace p @ (if Getenv w ''DATABASE_TYPE'' \<noteq> []
                then [EvOpenDB (Getenv w ''DATABASE_TYPE'') (BuildDSN w)] else [])"
  by (auto simp: New_connect_db_def Let_def emit_def split: option.splits prod.splits if_splits)

lemma New_connect_db_fields:
  "Cache (grv (snd (New_connect_db w p))) = Cache (grv p)"
  "Goravel.config (grv (snd (New_connect_db w p))) = Goravel.config (grv p)"
  "Goravel.RootPath (grv (snd (New_connect_db w p))) = Goravel.RootPath (grv p)"
  "myRedisCache (snd (New_connect_db w p)) = myRedisCache p"
  "myBadgerCache (snd (New_connect_db w p)) = myBadgerCache p"
  "redisPool (snd (New_connect_db w p)) = redisPool p"
  "badgerConn (snd (New_connect_db w p)) = badgerConn p"
  by (auto simp: New_connect_db_def Let_def emit_def split: option.splits prod.splits)

lemma New_ok_blocks:
  assumes "fst (New w d p) = Return None"
  shows "fst (New_connect_db w p) = None"
    and "fst (New_create_cache w (snd (New_connect_db w p))) = None"
    and "fst (New_create_session (New_configure w d
           (snd (New_create_cache w (snd (New_connect_db w p)))))) = None"
proof -
  obtain r1 p1 where c1: "New_connect_db w p = (r1, p1)" by (cases "New_connect_db w p")
  obtain r2 p2 where c2: "New_create_cache w p1 = (r2, p2)" by (cases "New_create_cache w p1")
  obtain r3 p3 where c3: "New_create_session (New_configure w d p2) = (r3, p3)"
    by (cases "New_create_session (New_configure w d p2)")
  have r1: "r1 \<noteq> Some (Return None)"
    using New_connect_db_result[of w p] c1 by (auto split: if_splits)
  have r2: "r2 \<noteq> Some (Return None)"
    using New_create_cache_result[of w p1] c2 by (auto split: if_splits option.splits)
  have r3: "r3 \<noteq> Some (Return None)"
    using New_create_session_result[of "New_configure w d p2"] c3 by (auto split: if_splits)
  have "r1 = None \<and> r2 = None \<and> r3 = None"
    using assms r1 r2 r3
    by (auto simp: New_def Init_def Let_def c1 c2 c3 simp del: Init_loop.simps
        split: option.splits)
  then show "fst (New_connect_db w p) = None"
    and "fst (New_create_cache w (snd (New_connect_db w p))) = None"
    and "fst (New_create_session (New_configure w d
           (snd (New_create_cache w (snd (New_connect_db w p)))))) = None"
    by (simp_all add: c1 c2 c3)
qed

lemma New_ok_trace:
  assumes "fst (New w d p) = Return None"
  shows "trace (snd (New w d p)) =
     trace p
     @ (if Getenv w ''DATABASE_TYPE'' \<noteq> []
        then [EvOpenDB (Getenv w ''DATABASE_TYPE'') (BuildDSN w)] else [])
     @ [EvCronNew]
     @ (if Getenv w ''CACHE'' = ''redis'' \<or> Getenv w ''SESSION_TYPE'' = ''redis''
        then [EvNewRedisPool, EvNewRedisCache] else [])
     @ (if Getenv w ''CACHE'' = ''badger''
        then [EvBadgerOpen (Goravel.RootPath (grv p) @ ''/tmp/badger''), EvNewBadgerCache,
              EvAddFunc ''@daily'']
        else [])
     @ [EvNewMailer, EvInitSession, EvGoListenForMail]"
  using New_ok_blocks[OF assms]
  by (simp add: New_ok_state[OF assms] New_finish_fields New_create_session_fields
      New_configure_keeps New_create_cache_trace New_connect_db_trace New_connect_db_fields)

lemma New_ok_Scheduler:
  assumes "fst (New w d p) = Return None"
  shows "Scheduler (grv (snd (New w d p))) =
     Some \<lparr>entries = (if Getenv w ''CACHE'' = ''badger''
                       then [(''@daily'', RunValueLogGC_myBadgerCache (7 / 10))] else []),
           running = False\<rparr>"
  using New_ok_blocks[OF assms]
  by (simp add: New_ok_state[OF assms] New_finish_fields New_create_session_fields
      New_configure_keeps New_create_cache_Scheduler)

lemma New_ok_Cache:
  assumes "fst (New w d p) = Return None"
  shows "Cache (grv (snd (New w d p))) =
     (if Getenv w ''CACHE'' = ''badger''
      then Some (BadgerFacade \<lparr>BadgerCache.Conn = createBadgerConn w (grv p),
                               BadgerCache.Prefix = prefix (redis (Goravel.config (grv p)))\<rparr>)
      else if Getenv w ''CACHE'' = ''redis'' \<or> Getenv w ''SESSION_TYPE'' = ''redis''
      then Some (RedisFacade \<lparr>RedisCache.Conn = Some (createRedisPool (grv p)),
                              RedisCache.Prefix = prefix (redis (Goravel.config (grv p)))\<rparr>)
      else Cache (grv p))"
  using New_ok_blocks[OF assms]
  by (simp add: New_ok_state[OF assms] New_finish_fields New_create_session_fields
      New_configure_keeps New_create_cache_Cache New_connect_db_fields
      createRedisPool_def createBadgerConn_def)


lemma New_ok_Server_Secure:
  assumes "fst (New w d p) = Return None"
  shows "Secure (Server (grv (snd (New w d p)))) = (ToLower (Getenv w ''SECURE'') \<noteq> ''false'')"
  using New_ok_blocks[OF assms]
  by (simp add: New_ok_state[OF assms] New_finish_fields New_create_session_fields
      New_configure_sets)

lemma New_ok_Mail:
  assumes "fst (New w d p) = Return None"
  shows "Mail (grv (snd (New w d p))) =
     createMailer w ((grv (snd (New_create_cache w (snd (New_connect_db w p)))))\<lparr>Goravel.RootPath := d\<rparr>)"
  using New_ok_blocks[OF assms]
  by (simp add: New_ok_state[OF assms] New_finish_fields New_create_session_fields
      New_configure_sets)

lemma New_world_ok: "fst (New (world_ok kvs) d p) = Return None"
  by (simp add: New_result world_ok_def checkDotEnv_def CreateFileIfNotExist_def)

lemma New_ok_iff: "fst (New w d p) = Return None \<longleftrightarrow> startup_failure w d = None"
  by (simp add: New_result startup_failure_def split: option.splits)

lemma New_ok_globals:
  assumes "fst (New w d p) = Return None"
  shows "myBadgerCache (snd (New w d p)) =
     (if Getenv w ''CACHE'' = ''badger''
      then Some \<lparr>BadgerCache.Conn = createBadgerConn w (grv p),
                 BadgerCache.Prefix = prefix (redis (Goravel.config (grv p)))\<rparr>
      else myBadgerCache p)"
  and "badgerConn (snd (New w d p)) =
     (if Getenv w ''CACHE'' = ''badger'' then createBadgerConn w (grv p) else badgerConn p)"
  and "myRedisCache (snd (New w d p)) =
     (if Getenv w ''CACHE'' = ''redis'' \<or> Getenv w ''SESSION_TYPE'' = ''redis''
      then Some \<lparr>RedisCache.Conn = Some (createRedisPool (grv p)),
                 RedisCache.Prefix = prefix (redis (Goravel.config (grv p)))\<rparr>
      else myRedisCache p)"
  and "redisPool (snd (New w d p)) =
     (if Getenv w ''CACHE'' = ''redis'' \<or> Getenv w ''SESSION_TYPE'' = ''redis''
      then Some (createRedisPool (grv p)) else redisPool p)"
  and "redis (Goravel.config (grv (snd (New w d p)))) =
     \<lparr>host = Getenv w ''REDIS_HOST'', password = Getenv w ''REDIS_PASSWORD'',
      prefix = Getenv w ''REDIS_PREFIX''\<rparr>"
  using New_ok_blocks[OF assms]
  by (simp_all add: New_ok_state[OF assms] New_finish_fields New_create_session_fields
      New_configure_keeps New_configure_fields New_configure_sets New_create_cache_globals
      New_connect_db_fields createRedisPool_def createBadgerConn_def)

lemma ListenAndServe_with_loggers:
  assumes "Goravel.InfoLog (grv p) \<noteq> None" and "Goravel.ErrorLog (grv p) \<noteq> None"
  shows "ListenAndServe w p =
     (Exit 1, p\<lparr>trace := trace p @ [EvLogInfo, EvServe ('':'' @ Getenv w ''PORT''),
                                     EvLogError (http_ListenAndServe w ('':'' @ Getenv w ''PORT''))]\<rparr>)"
  using assms by (auto simp: ListenAndServe_def Let_def emit_def)

lemma New_ok_loggers:
  assumes "fst (New w d p) = Return None"
  shows "Goravel.InfoLog (grv (snd (New w d p))) \<noteq> None"
    and "Goravel.ErrorLog (grv (snd (New w d p))) \<noteq> None"
    and "Pool (DB (grv (snd (New w d p)))) =
          (if Getenv w ''DATABASE_TYPE'' \<noteq> []
           then fst (OpenDB w (Getenv w ''DATABASE_TYPE'') (BuildDSN w)) else Pool (DB (grv p)))"
proof -
  have l: "Goravel.InfoLog (grv (New_configure w d q)) \<noteq> None"
    "Goravel.ErrorLog (grv (New_configure w d q)) \<noteq> None" for q
    by (simp_all add: New_configure_def Let_def emit_def split: prod.splits)
  have s: "fst (New_create_session q) = None \<Longrightarrow>
      Goravel.InfoLog (grv (snd (New_create_session q))) = Goravel.InfoLog (grv q) \<and>
      Goravel.ErrorLog (grv (snd (New_create_session q))) = Goravel.ErrorLog (grv q)" for q
    by (simp add: New_create_session_def Let_def emit_def split: option.splits if_splits)
  have f: "Goravel.InfoLog (grv (New_finish w d q)) = Goravel.InfoLog (grv q)"
    "Goravel.ErrorLog (grv (New_finish w d q)) = Goravel.ErrorLog (grv q)" for q
    by (simp_all add: New_finish_def Let_def emit_def createRenderer_def)
  have db: "fst (New_connect_db w p) = None \<Longrightarrow> Pool (DB (grv (snd (New_connect_db w p)))) =
          (if Getenv w ''DATABASE_TYPE'' \<noteq> []
           then fst (OpenDB w (Getenv w ''DATABASE_TYPE'') (BuildDSN w)) else Pool (DB (grv p)))"
    by (auto simp: New_connect_db_def Let_def emit_def split: option.splits prod.splits if_splits)
  show "Goravel.InfoLog (grv (snd (New w d p))) \<noteq> None"
    and "Goravel.ErrorLog (grv (snd (New w d p))) \<noteq> None"
    and "Pool (DB (grv (snd (New w d p)))) =
          (if Getenv w ''DATABASE_TYPE'' \<noteq> []
           then fst (OpenDB w (Getenv w ''DATABASE_TYPE'') (BuildDSN w)) else Pool (DB (grv p)))"
    using New_ok_blocks[OF assms] l s f db
    by (simp_all add: New_ok_state[OF assms] New_finish_fields New_create_session_fields
      New_configure_keeps New_create_cache_globals)
qed

lemma New_db_abort:
  assumes "Init_loop w d [''handlers'', ''migrations'', ''views'', ''mail'', ''data'',
                         ''public'', ''tmp'', ''logs'', ''middleware''] = None"
    and "checkDotEnv w d = None"
    and "godotenv_Load w (d @ ''/.env'') = None"
    and "Getenv w ''DATABASE_TYPE'' \<noteq> []"
    and "snd (OpenDB w (Getenv w ''DATABASE_TYPE'') (BuildDSN w)) = Some e"
    and "Goravel.ErrorLog (grv p) \<noteq> None"
  shows "fst (New w d p) = Exit 1"
    and "trace (snd (New w d p)) =
           trace p @ [EvOpenDB (Getenv w ''DATABASE_TYPE'') (BuildDSN w), EvLogError e]"
proof -
  have c: "New_connect_db w p =
      (Some (Exit 1), emit (EvLogError e) (emit (EvOpenDB (Getenv w ''DATABASE_TYPE'') (BuildDSN w)) p))"
    using assms(4,5,6)
    by (auto simp: New_connect_db_def Let_def emit_def split: prod.splits option.splits)
  show "fst (New w d p) = Exit 1"
    and "trace (snd (New w d p)) =
           trace p @ [EvOpenDB (Getenv w ''DATABASE_TYPE'') (BuildDSN w), EvLogError e]"
    using assms(1,2,3)
    by (simp_all add: New_def Init_def Let_def c emit_def del: Init_loop.simps)
qed

section \<open>The claims\<close>

text \<open>
  C1. The code does not close its pools. After a start-up that opened the database
  pool, the redis pool and the embedded store, \<^verbatim>\<open>ListenAndServe\<close> registers the three
  deferred \<^verbatim>\<open>Close\<close> calls, serves, and then leaves through \<^verbatim>\<open>ErrorLog.Fatal\<close>, that is
  through \<^verbatim>\<open>os.Exit(1)\<close>: the process ends with status 1 and the log of the run holds no
  \<^verbatim>\<open>Close\<close> at all.
\<close>

theorem ListenAndServe_exits_without_closing:
  "fst (New w_all ''/app'' proc0) = Return None \<and>
   Pool (DB (grv (snd (New w_all ''/app'' proc0)))) = Some (SqlDB 1) \<and>
   redisPool (snd (New w_all ''/app'' proc0)) \<noteq> None \<and>
   badgerConn (snd (New w_all ''/app'' proc0)) = Some (BadgerDB 1) \<and>
   fst (ListenAndServe w_all (snd (New w_all ''/app'' proc0))) = Exit 1 \<and>
   trace (snd (ListenAndServe w_all (snd (New w_all ''/app'' proc0)))) =
     trace (snd (New w_all ''/app'' proc0)) @
       [EvLogInfo, EvServe '':4000'', EvLogError (Error ''http: Server closed'')] \<and>
   EvCloseDB (SqlDB 1) \<notin> set (trace (snd (ListenAndServe w_all (snd (New w_all ''/app'' proc0))))) \<and>
   EvCloseRedisPool \<notin> set (trace (snd (ListenAndServe w_all (snd (New w_all ''/app'' proc0))))) \<and>
   EvCloseBadger (BadgerDB 1) \<notin>
     set (trace (snd (ListenAndServe w_all (snd (New w_all ''/app'' proc0)))))"
proof -
  have ok: "fst (New w_all ''/app'' proc0) = Return None"
    by (simp add: w_all_def New_world_ok)
  have e: "Getenv w_all ''CACHE'' = ''badger''" "Getenv w_all ''SESSION_TYPE'' = ''redis''"
    "Getenv w_all ''DATABASE_TYPE'' = ''postgres''" "Getenv w_all ''PORT'' = ''4000''"
    by (simp_all add: world_defs)
  have o: "fst (OpenDB w_all x y) = Some (SqlDB 1)" for x y
    by (simp add: world_defs)
  have b: "createBadgerConn w_all g = Some (BadgerDB 1)" for g
    by (simp add: createBadgerConn_def world_defs)
  have r: "Goravel.RootPath (grv proc0) = []" "trace proc0 = []"
    by (simp_all add: proc0_def Goravel0_def)
  have h: "http_ListenAndServe w_all a = Error ''http: Server closed''" for a
    by (simp add: world_defs)
  note las = ListenAndServe_with_loggers[OF New_ok_loggers(1,2)[OF ok], of w_all]
  show ?thesis
    by (simp add: ok las e o b h New_ok_loggers(3)[OF ok] New_ok_globals[OF ok]
        New_ok_trace[OF ok] r)
qed

text \<open>
  C2, as the claim states it, fails: in a configuration that sets the three bounds to 7,
  100 and 10 under every name the specification uses, the pool built at start-up has
  the bounds 50, 10000 and 240 seconds.
\<close>

theorem pool_bounds_ignore_configuration:
  "Getenv w_redis_bounds ''maxIdle'' = ''7'' \<and>
   Getenv w_redis_bounds ''maxActive'' = ''100'' \<and>
   Getenv w_redis_bounds ''idleTimeout'' = ''10'' \<and>
   fst (New w_redis_bounds ''/app'' proc0) = Return None \<and>
   map_option MaxIdle (redisPool (snd (New w_redis_bounds ''/app'' proc0))) = Some 50 \<and>
   map_option MaxActive (redisPool (snd (New w_redis_bounds ''/app'' proc0))) = Some 10000 \<and>
   map_option redis_Pool.IdleTimeout (redisPool (snd (New w_redis_bounds ''/app'' proc0))) =
     Some 240000000000"
proof -
  have ok: "fst (New w_redis_bounds ''/app'' proc0) = Return None"
    by (simp add: w_redis_bounds_def New_world_ok)
  have e: "Getenv w_redis_bounds ''CACHE'' = ''redis''"
    "Getenv w_redis_bounds ''maxIdle'' = ''7''"
    "Getenv w_redis_bounds ''maxActive'' = ''100''"
    "Getenv w_redis_bounds ''idleTimeout'' = ''10''"
    by (simp_all add: world_defs)
  show ?thesis
    by (simp add: ok New_ok_globals[OF ok] e createRedisPool_def time_Second_def)
qed

text \<open>
  C2, amended. The pool bounds are fixed in the program: whenever a successful \<^verbatim>\<open>New\<close>
  builds the pool (\<^verbatim>\<open>CACHE\<close> or \<^verbatim>\<open>SESSION_TYPE\<close> is \<^verbatim>\<open>redis\<close>), the pool is the same record
  for every configuration: \<^verbatim>\<open>MaxIdle\<close> 50, \<^verbatim>\<open>MaxActive\<close> 10000, \<^verbatim>\<open>IdleTimeout\<close> 240
  seconds, a probe that sends \<^verbatim>\<open>PING\<close>, and a dial function that reads the address and
  the password from the configuration record. With the configuration \<^verbatim>\<open>New\<close> leaves
  behind, it dials \<^verbatim>\<open>REDIS_HOST\<close> with \<^verbatim>\<open>REDIS_PASSWORD\<close>: the only settings the pool uses.
\<close>

theorem pool_bounds_fixed:
  assumes "fst (New w d p) = Return None"
    and "Getenv w ''CACHE'' = ''redis'' \<or> Getenv w ''SESSION_TYPE'' = ''redis''"
  shows "redisPool (snd (New w d p)) =
           Some \<lparr>MaxIdle = 50, MaxActive = 10000, IdleTimeout = 240 * time_Second,
                  Dial = (\<lambda>c. (''tcp'', host (redis c), password (redis c))),
                  TestOnBorrow = (\<lambda>Do. Do ''PING'')\<rparr>
       \<and> (\<exists>pool. redisPool (snd (New w d p)) = Some pool
           \<and> MaxIdle pool = 50 \<and> MaxActive pool = 10000
           \<and> redis_Pool.IdleTimeout pool = 240 * time_Second
           \<and> TestOnBorrow pool = (\<lambda>Do. Do ''PING'')
           \<and> Dial pool (Goravel.config (grv (snd (New w d p)))) =
               (''tcp'', Getenv w ''REDIS_HOST'', Getenv w ''REDIS_PASSWORD''))"
  using assms(2)
  by (auto simp: New_ok_globals[OF assms(1)] createRedisPool_def)

theorem pool_bounds_fixed_witness:
  "fst (New w_redis ''/app'' proc0) = Return None \<and>
   Getenv w_redis ''CACHE'' = ''redis'' \<and>
   redisPool (snd (New w_redis ''/app'' proc0)) =
     Some \<lparr>MaxIdle = 50, MaxActive = 10000, IdleTimeout = 240000000000,
            Dial = (\<lambda>c. (''tcp'', host (redis c), password (redis c))),
            TestOnBorrow = (\<lambda>Do. Do ''PING'')\<rparr> \<and>
   (\<exists>pool. redisPool (snd (New w_redis ''/app'' proc0)) = Some pool
      \<and> MaxIdle pool = 50 \<and> MaxActive pool = 10000
      \<and> redis_Pool.IdleTimeout pool = 240000000000
      \<and> Dial pool (Goravel.config (grv (snd (New w_redis ''/app'' proc0)))) =
          (''tcp'', ''localhost:6379'', []))"
proof -
  have ok: "fst (New w_redis ''/app'' proc0) = Return None"
    by (simp add: w_redis_def New_world_ok)
  have e: "Getenv w_redis ''CACHE'' = ''redis''" "Getenv w_redis ''REDIS_HOST'' = ''localhost:6379''"
    "Getenv w_redis ''REDIS_PASSWORD'' = []"
    by (simp_all add: world_defs)
  from pool_bounds_fixed[OF ok disjI1[OF e(1)]] ok e
  show ?thesis by (simp add: time_Second_def New_ok_globals(5)[OF ok])
qed

text \<open>
  C3, as the claim states it, fails: with an SMTP port that is no number, \<^verbatim>\<open>New\<close>
  returns nil and the mailer is left with port 0; and when the store on disk cannot be
  opened, \<^verbatim>\<open>New\<close> returns nil as well, with a nil handle.
\<close>

theorem invalid_settings_not_fatal:
  "snd (Atoi (Getenv w_bad_port ''SMTP_PORT'')) = Some ErrSyntax \<and>
   fst (New w_bad_port ''/app'' proc0) = Return None \<and>
   Mail.Port (Mail (grv (snd (New w_bad_port ''/app'' proc0)))) = 0 \<and>
   snd (badger_Open w_badger_fails ''/tmp/badger'') = Some (Error ''Cannot acquire directory lock'') \<and>
   fst (New w_badger_fails ''/app'' proc0) = Return None \<and>
   badgerConn (snd (New w_badger_fails ''/app'' proc0)) = None"
proof -
  have ok: "fst (New w_bad_port ''/app'' proc0) = Return None"
    by (simp add: w_bad_port_def New_world_ok)
  have ok': "fst (New w_badger_fails ''/app'' proc0) = Return None"
    by (simp add: New_result checkDotEnv_def CreateFileIfNotExist_def world_defs)
  have e: "Getenv w_bad_port ''SMTP_PORT'' = ''abc''" "Getenv w_badger_fails ''CACHE'' = ''badger''"
    by (simp_all add: world_defs)
  have a: "Atoi ''abc'' = (0, Some ErrSyntax)"
    by (simp add: Atoi_def ParseInt_def ParseUint_def is_digit_def)
  have b: "createBadgerConn w_badger_fails g = None" for g
    by (simp add: createBadgerConn_def world_defs)
  have o: "snd (badger_Open w_badger_fails ''/tmp/badger'') = Some (Error ''Cannot acquire directory lock'')"
    by (simp add: world_defs)
  show ?thesis
    by (simp add: ok ok' e a b o New_ok_Mail[OF ok] createMailer_fields New_ok_globals[OF ok'])
qed

text \<open>
  C3, amended. For every failure \<^verbatim>\<open>New\<close> checks, start-up is fatal. A folder or the
  \<^verbatim>\<open>.env\<close> file that cannot be created, a \<^verbatim>\<open>.env\<close> file that cannot be loaded and a
  maintenance job that cannot be registered make \<^verbatim>\<open>New\<close> return that error. A database
  that cannot be opened aborts the process with a clear message: on a receiver that has
  an error logger, the error of the driver is written to it and the process exits with
  status 1. In none of these cases does \<^verbatim>\<open>New\<close> return nil. These are the only fatal
  cases: when none of them occurs \<^verbatim>\<open>New\<close> returns nil, whatever the SMTP port and
  whatever the outcome of opening the embedded store.
\<close>

theorem New_fatal_on_checked_failures:
  "(startup_failure w d = Some (ReturnsError e) \<longrightarrow> fst (New w d p) = Return (Some e))
   \<and> (startup_failure w d = Some (AbortsProcess e) \<and> Goravel.ErrorLog (grv p) \<noteq> None \<longrightarrow>
        fst (New w d p) = Exit 1 \<and>
        trace (snd (New w d p)) =
          trace p @ [EvOpenDB (Getenv w ''DATABASE_TYPE'') (BuildDSN w), EvLogError e])
   \<and> (startup_failure w d \<noteq> None \<longrightarrow> fst (New w d p) \<noteq> Return None)
   \<and> (startup_failure w d = None \<longrightarrow> fst (New w d p) = Return None)"
proof -
  have a: "fst (New w d p) = Return (Some e)" if "startup_failure w d = Some (ReturnsError e)"
    using that
    by (simp add: New_result startup_failure_def del: Init_loop.simps
        split: option.splits if_splits)
  have b: "fst (New w d p) = Exit 1 \<and>
        trace (snd (New w d p)) =
          trace p @ [EvOpenDB (Getenv w ''DATABASE_TYPE'') (BuildDSN w), EvLogError e]"
    if "startup_failure w d = Some (AbortsProcess e)" "Goravel.ErrorLog (grv p) \<noteq> None"
    using that New_db_abort[of w d e p]
    by (simp add: startup_failure_def del: Init_loop.simps split: option.splits if_splits)
  show ?thesis
    using a b by (simp add: New_ok_iff)
qed

theorem New_fatal_on_checked_failures_witness:
  "startup_failure w_no_dotenv ''/app'' =
     Some (ReturnsError (Error ''unexpected character in variable name'')) \<and>
   fst (New w_no_dotenv ''/app'' proc0) =
     Return (Some (Error ''unexpected character in variable name'')) \<and>
   startup_failure w_db_down ''/app'' = Some (AbortsProcess (Error ''connection refused'')) \<and>
   Goravel.ErrorLog (grv proc_logged) \<noteq> None \<and>
   fst (New w_db_down ''/app'' proc_logged) = Exit 1 \<and>
   trace (snd (New w_db_down ''/app'' proc_logged)) =
     [EvOpenDB ''postgres'' (BuildDSN w_db_down), EvLogError (Error ''connection refused'')] \<and>
   fst (New w_db_down ''/app'' proc0) \<noteq> Return None \<and>
   startup_failure w_bad_port ''/app'' = None \<and>
   fst (New w_bad_port ''/app'' proc0) = Return None"
proof -
  have f1: "startup_failure w_no_dotenv ''/app'' =
      Some (ReturnsError (Error ''unexpected character in variable name''))"
    by (simp add: startup_failure_def checkDotEnv_def CreateFileIfNotExist_def world_defs)
  have f2: "startup_failure w_db_down ''/app'' = Some (AbortsProcess (Error ''connection refused''))"
    by (simp add: startup_failure_def checkDotEnv_def CreateFileIfNotExist_def world_defs)
  have f3: "startup_failure w_bad_port ''/app'' = None"
    by (simp add: startup_failure_def checkDotEnv_def CreateFileIfNotExist_def world_defs)
  have l: "Goravel.ErrorLog (grv proc_logged) \<noteq> None" "trace proc_logged = []"
    "Getenv w_db_down ''DATABASE_TYPE'' = ''postgres''"
    by (simp_all add: proc_logged_def proc0_def world_defs)
  from New_fatal_on_checked_failures[of w_no_dotenv "''/app''" _ proc0]
    New_fatal_on_checked_failures[of w_db_down "''/app''" _ proc_logged]
    New_fatal_on_checked_failures[of w_db_down "''/app''" _ proc0]
    New_fatal_on_checked_failures[of w_bad_port "''/app''" _ proc0]
    f1 f2 f3 l
  show ?thesis by simp
qed

text \<open>
  C4. After a successful \<^verbatim>\<open>New\<close> the scheduler holds exactly one job when the setting
  \<^verbatim>\<open>CACHE\<close> selects the embedded store, and none otherwise. The job has the schedule
  \<^verbatim>\<open>@daily\<close>, and running it calls the store's \<^verbatim>\<open>RunValueLogGC\<close> with the ratio 0.7 on
  the handle \<^verbatim>\<open>New\<close> opened.
\<close>

theorem daily_gc_job_registered:
  assumes "fst (New w d p) = Return None"
  shows "Scheduler (grv (snd (New w d p))) =
           Some \<lparr>entries = (if Getenv w ''CACHE'' = ''badger''
                             then [(''@daily'', RunValueLogGC_myBadgerCache (7 / 10))] else []),
                 running = False\<rparr>
       \<and> (\<forall>db. Getenv w ''CACHE'' = ''badger'' \<and> badgerConn (snd (New w d p)) = Some db \<longrightarrow>
             run_job (RunValueLogGC_myBadgerCache (7 / 10)) (snd (New w d p)) =
               (None, emit (EvRunValueLogGC db (7 / 10)) (snd (New w d p))))"
  by (auto simp: New_ok_Scheduler[OF assms] New_ok_globals[OF assms])

theorem daily_gc_job_registered_witness:
  "fst (New w_badger ''/app'' proc0) = Return None \<and>
   Scheduler (grv (snd (New w_badger ''/app'' proc0))) =
     Some \<lparr>entries = [(''@daily'', RunValueLogGC_myBadgerCache (7 / 10))], running = False\<rparr> \<and>
   trace (snd (run_job (RunValueLogGC_myBadgerCache (7 / 10)) (snd (New w_badger ''/app'' proc0)))) =
     trace (snd (New w_badger ''/app'' proc0)) @ [EvRunValueLogGC (BadgerDB 1) (7 / 10)] \<and>
   fst (New w_redis ''/app'' proc0) = Return None \<and>
   Scheduler (grv (snd (New w_redis ''/app'' proc0))) = Some \<lparr>entries = [], running = False\<rparr>"
proof -
  have ok: "fst (New w_badger ''/app'' proc0) = Return None"
    by (simp add: w_badger_def New_world_ok)
  have ok': "fst (New w_redis ''/app'' proc0) = Return None"
    by (simp add: w_redis_def New_world_ok)
  have c: "Getenv w_badger ''CACHE'' = ''badger''" "Getenv w_redis ''CACHE'' = ''redis''"
    by (simp_all add: world_defs)
  have b: "badgerConn (snd (New w_badger ''/app'' proc0)) = Some (BadgerDB 1)"
    by (simp add: New_ok_globals[OF ok] c createBadgerConn_def) (simp add: world_defs)
  from daily_gc_job_registered[OF ok] daily_gc_job_registered[OF ok'] ok ok' c b
  show ?thesis by (simp add: emit_def)
qed

text \<open>
  C5. For every configuration the mail pipeline is built with a jobs queue of capacity
  exactly 20 and a results sink of capacity exactly 20: this holds of every value
  \<^verbatim>\<open>createMailer\<close> returns, and of the \<^verbatim>\<open>Mail\<close> field after every successful \<^verbatim>\<open>New\<close>.
\<close>

theorem mail_queue_capacities:
  "chan_cap (Jobs (createMailer w g)) = 20 \<and> chan_cap (Results (createMailer w g)) = 20 \<and>
   (fst (New w d p) = Return None \<longrightarrow>
      chan_cap (Jobs (Mail (grv (snd (New w d p))))) = 20 \<and>
      chan_cap (Results (Mail (grv (snd (New w d p))))) = 20)"
  by (auto simp: New_ok_Mail createMailer_fields make_chan_def)

theorem mail_queue_capacities_witness:
  "fst (New w_plain ''/app'' proc0) = Return None \<and>
   chan_cap (Jobs (Mail (grv (snd (New w_plain ''/app'' proc0))))) = 20 \<and>
   chan_cap (Results (Mail (grv (snd (New w_plain ''/app'' proc0))))) = 20"
proof -
  have ok: "fst (New w_plain ''/app'' proc0) = Return None"
    by (simp add: w_plain_def New_world_ok)
  from mail_queue_capacities[where w = w_plain and d = "''/app''" and p = proc0] ok
  show ?thesis by simp
qed

text \<open>
  C6, as the claim states it, fails: with the same (empty) cache setting, the facade is
  absent when sessions are not kept in redis and is the network-cache backend when they
  are. The session setting is a second input that changes which backend the facade is.
\<close>

theorem facade_depends_on_session_type:
  "Getenv w_plain ''CACHE'' = Getenv w_session_redis ''CACHE'' \<and>
   fst (New w_plain ''/app'' proc0) = Return None \<and>
   fst (New w_session_redis ''/app'' proc0) = Return None \<and>
   map_option backend_of (Cache (grv (snd (New w_plain ''/app'' proc0)))) = None \<and>
   map_option backend_of (Cache (grv (snd (New w_session_redis ''/app'' proc0)))) =
     Some NetworkCache"
proof -
  have ok: "fst (New w_plain ''/app'' proc0) = Return None"
    by (simp add: w_plain_def New_world_ok)
  have ok': "fst (New w_session_redis ''/app'' proc0) = Return None"
    by (simp add: w_session_redis_def New_world_ok)
  have e: "Getenv w_plain ''CACHE'' = []" "Getenv w_session_redis ''CACHE'' = []"
    "Getenv w_plain ''SESSION_TYPE'' = []" "Getenv w_session_redis ''SESSION_TYPE'' = ''redis''"
    by (simp_all add: world_defs)
  have z: "Cache (grv proc0) = None"
    by (simp add: proc0_def Goravel0_def)
  show ?thesis
    by (simp add: ok ok' New_ok_Cache[OF ok] New_ok_Cache[OF ok'] e z)
qed

text \<open>
  C6, amended. After a successful \<^verbatim>\<open>New\<close> the facade is the network-cache backend when
  \<^verbatim>\<open>CACHE\<close> is \<^verbatim>\<open>redis\<close> and the embedded-store backend when it is \<^verbatim>\<open>badger\<close>. When
  \<^verbatim>\<open>CACHE\<close> names neither, the facade is the network-cache backend if \<^verbatim>\<open>SESSION_TYPE\<close> is
  \<^verbatim>\<open>redis\<close>, and otherwise \<^verbatim>\<open>New\<close> leaves the field as it found it. Nothing else enters.
\<close>

theorem facade_selected_by_cache_and_session:
  assumes "fst (New w d p) = Return None"
  shows "map_option backend_of (Cache (grv (snd (New w d p)))) =
     (if Getenv w ''CACHE'' = ''redis'' then Some NetworkCache
      else if Getenv w ''CACHE'' = ''badger'' then Some EmbeddedStore
      else if Getenv w ''SESSION_TYPE'' = ''redis'' then Some NetworkCache
      else map_option backend_of (Cache (grv p)))"
  by (simp add: New_ok_Cache[OF assms])

theorem facade_selected_by_cache_and_session_witness:
  "fst (New w_redis ''/app'' proc0) = Return None \<and>
   map_option backend_of (Cache (grv (snd (New w_redis ''/app'' proc0)))) = Some NetworkCache \<and>
   fst (New w_all ''/app'' proc0) = Return None \<and>
   map_option backend_of (Cache (grv (snd (New w_all ''/app'' proc0)))) = Some EmbeddedStore"
proof -
  have ok: "fst (New w_redis ''/app'' proc0) = Return None"
    by (simp add: w_redis_def New_world_ok)
  have ok': "fst (New w_all ''/app'' proc0) = Return None"
    by (simp add: w_all_def New_world_ok)
  have e: "Getenv w_redis ''CACHE'' = ''redis''" "Getenv w_all ''CACHE'' = ''badger''"
    by (simp_all add: world_defs)
  from facade_selected_by_cache_and_session[OF ok] facade_selected_by_cache_and_session[OF ok']
    ok ok' e
  show ?thesis by simp
qed

text \<open>
  C7, as the claim states it, fails: when the store on disk cannot be opened, \<^verbatim>\<open>New\<close>
  succeeds and starts the mail worker although the embedded-store backend it installed
  has no store behind it (its handle is nil).
\<close>

theorem worker_started_with_nil_store:
  "Getenv w_badger_fails ''CACHE'' = ''badger'' \<and>
   fst (New w_badger_fails ''/app'' proc0) = Return None \<and>
   EvGoListenForMail \<in> set (trace (snd (New w_badger_fails ''/app'' proc0))) \<and>
   map_option backend_of (Cache (grv (snd (New w_badger_fails ''/app'' proc0)))) =
     Some EmbeddedStore \<and>
   map_option BadgerCache.Conn (myBadgerCache (snd (New w_badger_fails ''/app'' proc0))) =
     Some None \<and>
   badgerConn (snd (New w_badger_fails ''/app'' proc0)) = None"
proof -
  have ok: "fst (New w_badger_fails ''/app'' proc0) = Return None"
    by (simp add: New_result checkDotEnv_def CreateFileIfNotExist_def world_defs)
  have e: "Getenv w_badger_fails ''CACHE'' = ''badger''"
    by (simp add: world_defs)
  have b: "createBadgerConn w_badger_fails g = None" for g
    by (simp add: createBadgerConn_def world_defs)
  show ?thesis
    by (simp add: ok e b New_ok_Cache[OF ok] New_ok_globals[OF ok] New_ok_trace[OF ok])
qed

text \<open>
  C7, amended. In every successful run of \<^verbatim>\<open>New\<close> the statement that starts the mail
  worker is the last thing \<^verbatim>\<open>New\<close> does before it returns, after everything it
  constructs for the cache backends. By then the redis pool, when one is selected, is the
  complete pool record and the network-cache facade holds it; the embedded-store facade,
  when selected, holds the handle \<^verbatim>\<open>badger.Open\<close> returned, which is nil when opening
  failed; and the installed facade is the one built last. \<^verbatim>\<open>New\<close> does not start the
  scheduler: the scheduler it created is not running when it returns.
\<close>

theorem New_startup_order:
  assumes "fst (New w d p) = Return None"
  shows "trace (snd (New w d p)) =
           trace p
           @ (if Getenv w ''DATABASE_TYPE'' \<noteq> []
              then [EvOpenDB (Getenv w ''DATABASE_TYPE'') (BuildDSN w)] else [])
           @ [EvCronNew]
           @ (if Getenv w ''CACHE'' = ''redis'' \<or> Getenv w ''SESSION_TYPE'' = ''redis''
              then [EvNewRedisPool, EvNewRedisCache] else [])
           @ (if Getenv w ''CACHE'' = ''badger''
              then [EvBadgerOpen (Goravel.RootPath (grv p) @ ''/tmp/badger''), EvNewBadgerCache,
                    EvAddFunc ''@daily'']
              else [])
           @ [EvNewMailer, EvInitSession, EvGoListenForMail]
       \<and> (Getenv w ''CACHE'' = ''redis'' \<or> Getenv w ''SESSION_TYPE'' = ''redis'' \<longrightarrow>
             redisPool (snd (New w d p)) =
               Some \<lparr>MaxIdle = 50, MaxActive = 10000, IdleTimeout = 240 * time_Second,
                      Dial = (\<lambda>c. (''tcp'', host (redis c), password (redis c))),
                      TestOnBorrow = (\<lambda>Do. Do ''PING'')\<rparr> \<and>
             map_option RedisCache.Conn (myRedisCache (snd (New w d p))) =
               Some (redisPool (snd (New w d p))))
       \<and> (Getenv w ''CACHE'' = ''badger'' \<longrightarrow>
             badgerConn (snd (New w d p)) =
               (case badger_Open w (Goravel.RootPath (grv p) @ ''/tmp/badger'') of
                  (db, Some err) \<Rightarrow> None
                | (db, None) \<Rightarrow> db) \<and>
             map_option BadgerCache.Conn (myBadgerCache (snd (New w d p))) =
               Some (badgerConn (snd (New w d p))))
       \<and> Cache (grv (snd (New w d p))) =
           (if Getenv w ''CACHE'' = ''badger''
            then map_option BadgerFacade (myBadgerCache (snd (New w d p)))
            else if Getenv w ''CACHE'' = ''redis'' \<or> Getenv w ''SESSION_TYPE'' = ''redis''
            then map_option RedisFacade (myRedisCache (snd (New w d p)))
            else Cache (grv p))
       \<and> map_option running (Scheduler (grv (snd (New w d p)))) = Some False"
  by (simp add: New_ok_trace[OF assms] New_ok_globals[OF assms] New_ok_Cache[OF assms]
      New_ok_Scheduler[OF assms] createRedisPool_def createBadgerConn_def)

theorem New_startup_order_witness:
  "fst (New w_all ''/app'' proc0) = Return None \<and>
   trace (snd (New w_all ''/app'' proc0)) =
     [EvOpenDB ''postgres'' (BuildDSN w_all), EvCronNew, EvNewRedisPool, EvNewRedisCache,
      EvBadgerOpen ''/tmp/badger'', EvNewBadgerCache, EvAddFunc ''@daily'',
      EvNewMailer, EvInitSession, EvGoListenForMail] \<and>
   redisPool (snd (New w_all ''/app'' proc0)) =
     Some \<lparr>MaxIdle = 50, MaxActive = 10000, IdleTimeout = 240000000000,
            Dial = (\<lambda>c. (''tcp'', host (redis c), password (redis c))),
            TestOnBorrow = (\<lambda>Do. Do ''PING'')\<rparr> \<and>
   badgerConn (snd (New w_all ''/app'' proc0)) = Some (BadgerDB 1) \<and>
   map_option BadgerCache.Conn (myBadgerCache (snd (New w_all ''/app'' proc0))) =
     Some (Some (BadgerDB 1)) \<and>
   map_option backend_of (Cache (grv (snd (New w_all ''/app'' proc0)))) = Some EmbeddedStore \<and>
   map_option running (Scheduler (grv (snd (New w_all ''/app'' proc0)))) = Some False"
proof -
  have ok: "fst (New w_all ''/app'' proc0) = Return None"
    by (simp add: w_all_def New_world_ok)
  have e: "Getenv w_all ''CACHE'' = ''badger''" "Getenv w_all ''SESSION_TYPE'' = ''redis''"
    "Getenv w_all ''DATABASE_TYPE'' = ''postgres''"
    by (simp_all add: world_defs)
  have b: "badger_Open w_all x = (Some (BadgerDB 1), None)" for x
    by (simp add: world_defs)
  have r: "Goravel.RootPath (grv proc0) = []" "trace proc0 = []"
    by (simp_all add: proc0_def Goravel0_def)
  have m: "myBadgerCache (snd (New w_all ''/app'' proc0)) \<noteq> None"
    by (simp add: New_ok_globals[OF ok] e)
  from New_startup_order[OF ok] ok e b r m
  show ?thesis by (auto simp: time_Second_def)
qed

text \<open>
  C8. The facades do not carry the configured prefix. On a fresh receiver, with
  \<^verbatim>\<open>REDIS_PREFIX\<close> set to \<^verbatim>\<open>myapp\<close>, both the network-cache facade and the embedded-store
  facade are built with the empty prefix: \<^verbatim>\<open>New\<close> builds them from \<^verbatim>\<open>grv.config\<close> before
  it has filled \<^verbatim>\<open>grv.config\<close> from the environment.
\<close>

theorem facade_prefix_not_configured:
  "Getenv w_redis ''REDIS_PREFIX'' = ''myapp'' \<and>
   fst (New w_redis ''/app'' proc0) = Return None \<and>
   map_option facade_prefix (Cache (grv (snd (New w_redis ''/app'' proc0)))) = Some [] \<and>
   map_option backend_of (Cache (grv (snd (New w_redis ''/app'' proc0)))) = Some NetworkCache \<and>
   prefix (redis (Goravel.config (grv (snd (New w_redis ''/app'' proc0))))) = ''myapp'' \<and>
   Getenv w_badger ''REDIS_PREFIX'' = ''myapp'' \<and>
   fst (New w_badger ''/app'' proc0) = Return None \<and>
   map_option facade_prefix (Cache (grv (snd (New w_badger ''/app'' proc0)))) = Some [] \<and>
   map_option backend_of (Cache (grv (snd (New w_badger ''/app'' proc0)))) = Some EmbeddedStore \<and>
   prefix (redis (Goravel.config (grv (snd (New w_badger ''/app'' proc0))))) = ''myapp''"
proof -
  have ok: "fst (New w_redis ''/app'' proc0) = Return None"
    by (simp add: w_redis_def New_world_ok)
  have ok': "fst (New w_badger ''/app'' proc0) = Return None"
    by (simp add: w_badger_def New_world_ok)
  have e: "Getenv w_redis ''CACHE'' = ''redis''" "Getenv w_redis ''REDIS_PREFIX'' = ''myapp''"
    "Getenv w_badger ''CACHE'' = ''badger''" "Getenv w_badger ''REDIS_PREFIX'' = ''myapp''"
    by (simp_all add: world_defs)
  have z: "prefix (redis (Goravel.config (grv proc0))) = []"
    by (simp add: proc0_def Goravel0_def config0_def)
  show ?thesis
    by (simp add: ok ok' e z New_ok_Cache[OF ok] New_ok_Cache[OF ok'] New_ok_globals(5)[OF ok]
        New_ok_globals(5)[OF ok'])
qed

text \<open>
  C9. When opening the store on disk fails, \<^verbatim>\<open>createBadgerConn\<close> returns nil (it has no
  error result). If nothing else fails, \<^verbatim>\<open>New\<close> then returns nil: the facade it installed
  is the embedded-store one with a nil handle, the package variables hold the same nil
  handle, and the daily job over that handle is registered all the same.
\<close>

theorem badger_open_failure_not_fatal:
  assumes "Getenv w ''CACHE'' = ''badger''"
    and "snd (badger_Open w (Goravel.RootPath (grv p) @ ''/tmp/badger'')) \<noteq> None"
    and "startup_failure w d = None"
  shows "createBadgerConn w (grv p) = None
       \<and> fst (New w d p) = Return None
       \<and> Cache (grv (snd (New w d p))) =
           Some (BadgerFacade \<lparr>BadgerCache.Conn = None,
                                BadgerCache.Prefix = prefix (redis (Goravel.config (grv p)))\<rparr>)
       \<and> myBadgerCache (snd (New w d p)) =
           Some \<lparr>BadgerCache.Conn = None,
                  BadgerCache.Prefix = prefix (redis (Goravel.config (grv p)))\<rparr>
       \<and> badgerConn (snd (New w d p)) = None
       \<and> Scheduler (grv (snd (New w d p))) =
           Some \<lparr>entries = [(''@daily'', RunValueLogGC_myBadgerCache (7 / 10))],
                  running = False\<rparr>"
proof -
  have nil: "createBadgerConn w (grv p) = None"
    using assms(2) by (auto simp: createBadgerConn_def split: prod.splits option.splits)
  have ok: "fst (New w d p) = Return None"
    using assms(3) by (simp add: New_ok_iff)
  show ?thesis
    by (simp add: nil ok New_ok_Cache[OF ok] New_ok_globals[OF ok] New_ok_Scheduler[OF ok] assms(1))
qed

theorem badger_open_failure_not_fatal_witness:
  "Getenv w_badger_fails ''CACHE'' = ''badger'' \<and>
   snd (badger_Open w_badger_fails (Goravel.RootPath (grv proc0) @ ''/tmp/badger'')) \<noteq> None \<and>
   startup_failure w_badger_fails ''/app'' = None \<and>
   fst (New w_badger_fails ''/app'' proc0) = Return None \<and>
   Cache (grv (snd (New w_badger_fails ''/app'' proc0))) =
     Some (BadgerFacade \<lparr>BadgerCache.Conn = None, BadgerCache.Prefix = []\<rparr>) \<and>
   badgerConn (snd (New w_badger_fails ''/app'' proc0)) = None \<and>
   Scheduler (grv (snd (New w_badger_fails ''/app'' proc0))) =
     Some \<lparr>entries = [(''@daily'', RunValueLogGC_myBadgerCache (7 / 10))], running = False\<rparr>"
proof -
  have a: "Getenv w_badger_fails ''CACHE'' = ''badger''"
    by (simp add: world_defs)
  have b: "snd (badger_Open w_badger_fails (Goravel.RootPath (grv proc0) @ ''/tmp/badger'')) \<noteq> None"
    by (simp add: world_defs)
  have c: "startup_failure w_badger_fails ''/app'' = None"
    by (simp add: startup_failure_def checkDotEnv_def CreateFileIfNotExist_def world_defs)
  have z: "prefix (redis (Goravel.config (grv proc0))) = []"
    by (simp add: proc0_def Goravel0_def config0_def)
  from badger_open_failure_not_fatal[OF a b c] a b c z show ?thesis by simp
qed

text \<open>
  C10. After a successful \<^verbatim>\<open>New\<close> the server's \<^verbatim>\<open>Secure\<close> flag is true for every value of
  the setting \<^verbatim>\<open>SECURE\<close> except the word \<^verbatim>\<open>false\<close> written in any mixture of capitals and
  small letters; in particular an unset or empty setting gives a secure server.
\<close>

theorem Secure_unless_false:
  assumes "fst (New w d p) = Return None"
  shows "Secure (Server (grv (snd (New w d p)))) = (\<not> false_ignoring_case (Getenv w ''SECURE''))
       \<and> (Getenv w ''SECURE'' = [] \<longrightarrow> Secure (Server (grv (snd (New w d p)))))"
  by (simp add: New_ok_Server_Secure[OF assms] ToLower_false_iff false_ignoring_case_def)

theorem Secure_unless_false_witness:
  "fst (New w_insecure ''/app'' proc0) = Return None \<and>
   Secure (Server (grv (snd (New w_insecure ''/app'' proc0)))) = False \<and>
   fst (New w_plain ''/srv'' proc0) = Return None \<and>
   Secure (Server (grv (snd (New w_plain ''/srv'' proc0)))) = True"
proof -
  have ok: "fst (New w_insecure ''/app'' proc0) = Return None"
    by (simp add: w_insecure_def New_world_ok)
  have ok': "fst (New w_plain ''/srv'' proc0) = Return None"
    by (simp add: w_plain_def New_world_ok)
  from Secure_unless_false[OF ok] Secure_unless_false[OF ok'] ok ok'
  show ?thesis
    by (simp add: w_insecure_def w_plain_def world_ok_def env_of_def false_ignoring_case_def)
qed

end
